theory Spec2Isabelle
  imports Main
begin

section \<open>Go strings\<close>

text \<open>
  A Go string is a sequence of bytes, modelled as \<open>string\<close> (a list of 8-bit characters).
  The functions of package \<open>strings\<close> that the scanner calls are written out below.
\<close>

text \<open>\<open>strings.HasPrefix(s, prefix)\<close>.\<close>

fun HasPrefix :: "string \<Rightarrow> string \<Rightarrow> bool" where
  "HasPrefix s [] = True"
| "HasPrefix [] (p # ps) = False"
| "HasPrefix (c # cs) (p # ps) = (c = p \<and> HasPrefix cs ps)"

text \<open>\<open>strings.Contains(s, substr)\<close>: \<open>substr\<close> occurs in \<open>s\<close> at some offset.\<close>

fun Contains :: "string \<Rightarrow> string \<Rightarrow> bool" where
  "Contains [] substr = (substr = [])"
| "Contains (c # cs) substr = (HasPrefix (c # cs) substr \<or> Contains cs substr)"

text \<open>
  \<open>strings.Count(s, substr)\<close> for a one-byte \<open>substr\<close>, the only way the scanner calls
  it: the number of occurrences of that byte.
\<close>

definition CountByte :: "string \<Rightarrow> char \<Rightarrow> nat" where
  "CountByte s c = length (filter (\<lambda>x. x = c) s)"

text \<open>
  \<open>strings.ToLower\<close> and \<open>strings.ToUpper\<close>. Both first scan the bytes of their argument.
  When every byte is ASCII (below \<open>0x80\<close>) they map byte by byte: \<open>ToLower\<close> moves the
  letters \<open>A\<close> to \<open>Z\<close> (bytes 65 to 90) up by 32, \<open>ToUpper\<close> the letters \<open>a\<close> to \<open>z\<close> (bytes
  97 to 122) down by 32, and every other byte is kept. When some byte is not ASCII they
  return \<open>strings.Map(unicode.ToLower, s)\<close> and \<open>strings.Map(unicode.ToUpper, s)\<close>: the
  text is decoded as UTF-8 and every rune is mapped by the case tables of package
  \<open>unicode\<close> (the Kelvin sign U+212A becomes \<open>k\<close>, the dotted capital I U+0130 becomes
  \<open>i\<close>). That part of Go's standard library is external to the scanner and is a
  parameter of the model: \<open>MapToLower\<close> and \<open>MapToUpper\<close> are what the two calls of
  \<open>strings.Map\<close> return.
\<close>

record UnicodeCase =
  MapToLower :: "string \<Rightarrow> string"
  MapToUpper :: "string \<Rightarrow> string"

definition isASCII :: "string \<Rightarrow> bool" where
  "isASCII s = list_all (\<lambda>c. (of_char c :: nat) < 128) s"

definition lowerByte :: "char \<Rightarrow> char" where
  "lowerByte c =
     (let n = (of_char c :: nat) in if 65 \<le> n \<and> n \<le> 90 then char_of (n + 32) else c)"

definition upperByte :: "char \<Rightarrow> char" where
  "upperByte c =
     (let n = (of_char c :: nat) in if 97 \<le> n \<and> n \<le> 122 then char_of (n - 32) else c)"

definition ToLower :: "UnicodeCase \<Rightarrow> string \<Rightarrow> string" where
  "ToLower unicode s = (if isASCII s then map lowerByte s else MapToLower unicode s)"

definition ToUpper :: "UnicodeCase \<Rightarrow> string \<Rightarrow> string" where
  "ToUpper unicode s = (if isASCII s then map upperByte s else MapToUpper unicode s)"

text \<open>\<open>strings.TrimPrefix(s, prefix)\<close>.\<close>

definition TrimPrefix :: "string \<Rightarrow> string \<Rightarrow> string" where
  "TrimPrefix s p = (if HasPrefix s p then drop (length p) s else s)"

section \<open>Machine integers\<close>

text \<open>
  Go's \<open>int\<close> is a 64-bit two's complement integer on the platforms the scanner is built
  for; a product that leaves the range wraps around. Integers are modelled as \<open>int\<close>
  with the wrap-around written out.
\<close>

definition wrap64 :: "int \<Rightarrow> int" where
  "wrap64 x = (x + 2 ^ 63) mod 2 ^ 64 - 2 ^ 63"

section \<open>Package generator\<close>

subsection \<open>The regex guard\<close>

text \<open>
  The deny-list. Its last entry is the Go literal for an opening parenthesis, a
  backslash (byte \<open>0x5C\<close>), \<open>w+)*\<close>, a backslash and \<open>w*\<close>.
\<close>

definition dangerousPatterns :: "string list" where
  "dangerousPatterns =
     [''(.*)*'', ''(.+)+'', ''(a+)+'', ''(a*)*'', ''(.{0,})*'',
      ''('' @ [CHR 0x5C] @ ''w+)*'' @ [CHR 0x5C] @ ''w*'']"

text \<open>
  \<open>validateRegexComplexity\<close> returns an error (here \<open>Some\<close> of its message) or \<open>nil\<close>
  (\<open>None\<close>). The three checks run in the order of the source; the loop over the deny-list
  returns at the first entry the pattern contains.
\<close>

definition validateRegexComplexity :: "string \<Rightarrow> string option" where
  "validateRegexComplexity pattern =
     (if length pattern > 200 then Some ''regex pattern too long (max 200 characters)''
      else
        (case find (\<lambda>dangerous. Contains pattern dangerous) dangerousPatterns of
           Some dangerous \<Rightarrow>
             Some (''detected potentially dangerous regex pattern: '' @ dangerous)
         | None \<Rightarrow>
             (let nestedCount = CountByte pattern (CHR ''+'') + CountByte pattern (CHR ''*'')
              in if nestedCount > 5
                 then Some ''too many quantifiers in regex pattern (max 5)''
                 else None)))"

subsection \<open>Compiled filters\<close>

text \<open>
  The regex engine (\<open>regexp2\<close>) is an external library. A compiled \<open>*regexp2.Regexp\<close> is
  modelled by what \<open>MatchString\<close> answers on an input: an error (a match that ran into
  the 100 ms timeout) or whether the input matches. The \<open>nil\<close> pointer is \<open>None\<close>.
  The message of \<open>safeRegexMatch\<close>, which its caller drops, is abridged.
\<close>

type_synonym regex = "string \<Rightarrow> string + bool"

definition safeRegexMatch :: "regex option \<Rightarrow> string \<Rightarrow> string + bool" where
  "safeRegexMatch regex input =
     (case regex of
        None \<Rightarrow> Inr True
      | Some r \<Rightarrow>
          (case r input of
             Inl err \<Rightarrow> Inl (''regex matching failed: '' @ err)
           | Inr m \<Rightarrow> Inr m))"

text \<open>\<open>types.RegexMode\<close> is an \<open>int\<close> with two named constants.\<close>

type_synonym RegexMode = int

definition RegexModeFull :: RegexMode where
  "RegexModeFull = 0"

definition RegexModePrefix :: RegexMode where
  "RegexModePrefix = 1"

subsection \<open>The counter loops\<close>

text \<open>
  \<open>total := 1; for i := 0; i < length; i++ { total *= charsetSize }\<close>, the loop shared by
  \<open>generateCombinationsIterative\<close> and \<open>CalculateDomainsCount\<close> (\<open>tot\<close> is the source's
  \<open>total\<close>, \<open>len\<close> its \<open>length\<close>).
\<close>

function totalLoop :: "int \<Rightarrow> int \<Rightarrow> int \<Rightarrow> int \<Rightarrow> int" where
  "totalLoop charsetSize len i tot =
     (if i < len then totalLoop charsetSize len (i + 1) (wrap64 (tot * charsetSize))
      else tot)"
  by pat_completeness auto
termination
  by (relation "measure (\<lambda>(charsetSize, len, i, tot). nat (len - i))") auto

declare totalLoop.simps [simp del]

text \<open>
  The inner loop that turns a counter into a string: each round puts the symbol of the
  lowest remaining digit in front of \<open>current\<close> and divides \<open>temp\<close> by the alphabet size.
  \<open>temp\<close> starts at the counter, which is never negative, so Go's truncating \<open>/\<close> and
  \<open>%\<close> agree with \<open>div\<close> and \<open>mod\<close>, and the index is within the alphabet.
\<close>

function currentLoop :: "string \<Rightarrow> int \<Rightarrow> int \<Rightarrow> int \<Rightarrow> string \<Rightarrow> string" where
  "currentLoop charset len i temp current =
     (if i < len then
        currentLoop charset len (i + 1) (temp div int (length charset))
          (charset ! nat (temp mod int (length charset)) # current)
      else current)"
  by pat_completeness auto
termination
  by (relation "measure (\<lambda>(charset, len, i, temp, current). nat (len - i))") auto

declare currentLoop.simps [simp del]

text \<open>
  The filter decision for one candidate: \<open>match\<close> starts false, and the \<open>switch\<close> on the
  mode has a case for each of the two constants only.
\<close>

definition matchDomain :: "regex option \<Rightarrow> RegexMode \<Rightarrow> string \<Rightarrow> string \<Rightarrow> bool" where
  "matchDomain regex regexMode current domain =
     (if regexMode = RegexModeFull then
        (case regex of
           None \<Rightarrow> True
         | Some r \<Rightarrow> (case safeRegexMatch regex domain of Inl err \<Rightarrow> False | Inr m \<Rightarrow> m))
      else if regexMode = RegexModePrefix then
        (case regex of
           None \<Rightarrow> True
         | Some r \<Rightarrow> (case safeRegexMatch regex current of Inl err \<Rightarrow> False | Inr m \<Rightarrow> m))
      else False)"

text \<open>
  The outer loop over the counter. The channel the source writes to is modelled by the
  list of the strings sent, in the order they are sent.
\<close>

function counterLoop ::
  "string \<Rightarrow> int \<Rightarrow> string \<Rightarrow> regex option \<Rightarrow> RegexMode \<Rightarrow> int \<Rightarrow> int \<Rightarrow> string list" where
  "counterLoop charset len suffix regex regexMode tot counter =
     (if counter < tot then
        (let current = currentLoop charset len 0 counter [];
             domain = current @ suffix
         in (if matchDomain regex regexMode current domain then [domain] else []) @
            counterLoop charset len suffix regex regexMode tot (counter + 1))
      else [])"
  by pat_completeness auto
termination
  by (relation "measure (\<lambda>(charset, len, suffix, regex, regexMode, tot, counter).
        nat (tot - counter))") auto

declare counterLoop.simps [simp del]

definition generateCombinationsIterative ::
  "string \<Rightarrow> int \<Rightarrow> string \<Rightarrow> regex option \<Rightarrow> RegexMode \<Rightarrow> string list" where
  "generateCombinationsIterative charset len suffix regex regexMode =
     (let charsetSize = int (length charset) in
      if charsetSize = 0 \<or> len \<le> 0 then []
      else
        (let tot = totalLoop charsetSize len 0 1
         in counterLoop charset len suffix regex regexMode tot 0))"

definition CalculateDomainsCount :: "int \<Rightarrow> string \<Rightarrow> int" where
  "CalculateDomainsCount len pattern =
     (if pattern = ''d'' then totalLoop 10 len 0 1
      else if pattern = ''D'' then totalLoop 26 len 0 1
      else if pattern = ''a'' then totalLoop 36 len 0 1
      else 0)"

subsection \<open>GenerateDomains\<close>

definition letters :: string where
  "letters = ''abcdefghijklmnopqrstuvwxyz''"

definition numbers :: string where
  "numbers = ''0123456789''"

text \<open>
  \<open>GenerateDomains\<close> either ends the process (\<open>os.Exit(1)\<close> after printing a message:
  \<open>Inl\<close> of the message) or produces the stream of candidates (\<open>Inr\<close> of the strings
  sent on the channel, in order). \<open>compile\<close> stands for \<open>regexp2.Compile\<close>, which answers
  an error or a compiled filter.
\<close>

definition GenerateDomains ::
  "(string \<Rightarrow> string + regex) \<Rightarrow> int \<Rightarrow> string \<Rightarrow> string \<Rightarrow> string \<Rightarrow> RegexMode
     \<Rightarrow> string + string list" where
  "GenerateDomains compile len suffix pattern regexFilter regexMode =
     (let run = (\<lambda>regex.
        if pattern = ''d'' then
          Inr (generateCombinationsIterative numbers len suffix regex regexMode)
        else if pattern = ''D'' then
          Inr (generateCombinationsIterative letters len suffix regex regexMode)
        else if pattern = ''a'' then
          Inr (generateCombinationsIterative (letters @ numbers) len suffix regex regexMode)
        else Inl ''Invalid pattern. Use -d for numbers, -D for letters, -a for alphanumeric'')
      in
      if regexFilter \<noteq> [] then
        (case validateRegexComplexity regexFilter of
           Some err \<Rightarrow> Inl (''Regex pattern rejected: '' @ err)
         | None \<Rightarrow>
             (case compile regexFilter of
                Inl err \<Rightarrow> Inl (''Invalid regex pattern: '' @ err)
              | Inr r \<Rightarrow> run (Some r)))
      else run None)"

subsection \<open>The enumeration, as the specification words it\<close>

text \<open>
  The specification's account of the generator, for comparison with the loops above:
  the alphabet a pattern selects, and the fixed-length string of a counter, found by
  repeated division and modulo with the most significant symbol first.
\<close>

definition alphabet :: "string \<Rightarrow> string" where
  "alphabet pattern =
     (if pattern = ''d'' then numbers else if pattern = ''D'' then letters
      else letters @ numbers)"

fun counterString :: "string \<Rightarrow> nat \<Rightarrow> nat \<Rightarrow> string" where
  "counterString charset 0 k = []"
| "counterString charset (Suc n) k =
     counterString charset n (k div length charset) @ [charset ! (k mod length charset)]"

section \<open>Package domain\<close>

subsection \<open>Configuration, results and the special-status list\<close>

text \<open>
  Of \<open>types.Config\<close> the checker reads the switches of \<open>Scanner.Methods\<close> only. The global
  \<open>globalConfig\<close> is a pointer: \<open>None\<close> is \<open>nil\<close> (no configuration file was loaded and
  \<open>SetConfig\<close> was never called).
\<close>

record Config =
  DNSCheck :: bool
  WHOISCheck :: bool
  SSLCheck :: bool
  HTTPCheck :: bool

text \<open>
  Modelled from the spec: the declaration of \<open>types.SpecialStatusDomain\<close> is not among
  the source files. The specification's SpecialStatusRecord is \<open>{domain, status reason,
  detail}\<close>, and \<open>addToSpecialStatus\<close> fills its fields \<open>Domain\<close>, \<open>Status\<close> and \<open>Reason\<close>
  with strings. \<open>types.DomainResult\<close> follows its declaration. The two \<open>Domain\<close> fields
  carry a suffix, since one theory cannot hold two fields of one name.
\<close>

record SpecialStatusDomain =
  Domain_s :: string
  Status :: string
  Reason :: string

record DomainResult =
  Domain_r :: string
  Available :: bool
  Error :: "string option"
  Signatures :: "string list"
  SpecialStatus :: string

subsection \<open>The indicator tables\<close>

definition registeredIndicators :: "string list" where
  "registeredIndicators =
     [''registrar:'', ''registrant:'', ''creation date:'', ''created:'', ''updated date:'',
      ''updated:'', ''expiration date:'', ''expires:'', ''name server:'', ''nserver:'',
      ''nameserver:'', ''status: active'', ''status: client'', ''status: ok'',
      ''status: locked'', ''status: connect'', ''status:connect'', ''domain name:'',
      ''domain:'', ''nsentry:'', ''changed:'']"

definition reservedIndicators :: "string list" where
  "reservedIndicators =
     [''status: reserved'', ''status: restricted'', ''status: blocked'',
      ''status: prohibited'', ''status: reserved for registry'',
      ''status: reserved for registrar'', ''status: reserved for registry operator'',
      ''status: reserved for future use'', ''status: not available for registration'',
      ''status: not available for general registration'',
      ''status: reserved for special purposes'', ''status: reserved for government use'',
      ''status: reserved for educational institutions'',
      ''status: reserved for non-profit organizations'', ''domain reserved'',
      ''this domain is reserved'', ''reserved domain'']"

definition availableIndicators :: "string list" where
  "availableIndicators =
     [''no match for'', ''not found'', ''no data found'', ''no entries found'',
      ''domain not found'', ''no object found'', ''no matching record'', ''status: free'',
      ''status: available'', ''available for registration'', ''this domain is available'',
      ''domain is available'', ''domain available'']"

text \<open>The two tables local to \<open>CheckDomainAvailability\<close>.\<close>

definition enhancedRegisteredIndicators :: "string list" where
  "enhancedRegisteredIndicators =
     [''registrar:'', ''registrant:'', ''creation date:'', ''created:'', ''updated date:'',
      ''updated:'', ''expiration date:'', ''expires:'', ''name server:'', ''nserver:'',
      ''nameserver:'', ''status: active'', ''status: client'', ''status: ok'',
      ''status: locked'', ''status: connect'', ''status:connect'', ''domain name:'',
      ''domain:'', ''Status: connect'', ''nsentry:'', ''changed:'']"

definition specialStatusIndicators :: "string list" where
  "specialStatusIndicators =
     [''status: redemptionperiod'', ''status: redemption period'', ''status: redemption'',
      ''redemptionperiod'', ''redemption period'', ''status: pendingdelete'',
      ''status: pending delete'', ''status: hold'', ''status: inactive'',
      ''status: suspended'', ''status: reserved'', ''status: quarantined'',
      ''status: pending'', ''status: transfer'', ''status: grace'',
      ''status: autorenewperiod'', ''status: auto renew period'', ''status: expire'',
      ''status: expired'', ''status: clienthold'', ''status: client hold'',
      ''status: serverhold'', ''status: server hold'']"

text \<open>
  \<open>for _, indicator := range indicators { if strings.Contains(result, indicator) { ... } }\<close>
  with a \<open>break\<close> or \<open>return\<close> in the body: the first indicator of the table that the
  text contains, if any.
\<close>

definition firstIndicator :: "string \<Rightarrow> string list \<Rightarrow> string option" where
  "firstIndicator result indicators = find (\<lambda>indicator. Contains result indicator) indicators"

text \<open>
  The rate-limit test that \<open>CheckDomainAvailability\<close> applies to the lowercased response
  and to the lowercased error text.
\<close>

definition isRateLimit :: "string \<Rightarrow> bool" where
  "isRateLimit s =
     (Contains s ''connection refused'' \<or> Contains s ''access control'' \<or>
      Contains s ''limit exceeded'' \<or> Contains s ''rate limit'' \<or>
      Contains s ''too many requests'')"

subsection \<open>The network\<close>

text \<open>
  The DNS resolver, the WHOIS service and the TLS dialer are external. What they answer
  while one call runs is an input of the model: an answer is \<open>Inl\<close> of the error text or
  \<open>Inr\<close> of what the code reads from the result (the number of records or of peer
  certificates, the canonical name). A WHOIS loop queries once per attempt, so its
  answers are indexed by the attempt. Waiting between attempts (\<open>time.Sleep\<close>) and
  printing are not modelled. The functions that lowercase a WHOIS text take the case
  mapping of non-ASCII text as their first argument, \<open>unicode\<close>.
\<close>

datatype whois_reply = WhoisResult string | WhoisError string

record SignatureProbes =
  LookupNS :: "string + nat"
  LookupIP :: "string + nat"
  LookupMX :: "string + nat"
  LookupTXT :: "string + nat"
  LookupCNAME :: "string + string"
  Whois :: "nat \<Rightarrow> whois_reply"
  TLSDial :: "string + nat"

subsection \<open>CheckDomainSignatures\<close>

definition checkDNSRecords :: "string \<Rightarrow> SignatureProbes \<Rightarrow> string list \<times> string option" where
  "checkDNSRecords domain probes =
     (let signatures1 =
            (case LookupNS probes of Inr n \<Rightarrow> if n > 0 then [''DNS_NS''] else [] | Inl err \<Rightarrow> []);
          signatures2 = signatures1 @
            (case LookupIP probes of Inr n \<Rightarrow> if n > 0 then [''DNS_A''] else [] | Inl err \<Rightarrow> []);
          signatures3 = signatures2 @
            (case LookupMX probes of Inr n \<Rightarrow> if n > 0 then [''DNS_MX''] else [] | Inl err \<Rightarrow> []);
          signatures4 = signatures3 @
            (case LookupTXT probes of Inr n \<Rightarrow> if n > 0 then [''DNS_TXT''] else [] | Inl err \<Rightarrow> []);
          signatures5 = signatures4 @
            (case LookupCNAME probes of
               Inr cnameRecord \<Rightarrow>
                 if cnameRecord \<noteq> [] \<and> cnameRecord \<noteq> domain @ ''.'' then [''DNS_CNAME'']
                 else []
             | Inl err \<Rightarrow> [])
      in (signatures5, None))"

text \<open>
  The retry loop of \<open>CheckDomainSignatures\<close>: \<open>whoisResult\<close> is the result of the first
  attempt without an error, and stays empty when all \<open>maxRetries\<close> attempts fail.
\<close>

function signaturesWhoisLoop :: "(nat \<Rightarrow> whois_reply) \<Rightarrow> nat \<Rightarrow> nat \<Rightarrow> string" where
  "signaturesWhoisLoop whois maxRetries i =
     (if i < maxRetries then
        (case whois i of
           WhoisResult result \<Rightarrow> result
         | WhoisError err \<Rightarrow> signaturesWhoisLoop whois maxRetries (i + 1))
      else [])"
  by pat_completeness auto
termination
  by (relation "measure (\<lambda>(whois, maxRetries, i). maxRetries - i)") auto

declare signaturesWhoisLoop.simps [simp del]

text \<open>
  What a WHOIS result adds to the signatures: nothing when it is empty or holds an
  available indicator; otherwise \<open>WHOIS\<close> when it holds a registered indicator, and then
  \<open>RESERVED\<close> when it holds a reserved indicator.
\<close>

definition whoisSignatures :: "UnicodeCase \<Rightarrow> string \<Rightarrow> string list" where
  "whoisSignatures unicode whoisResult =
     (if whoisResult \<noteq> [] then
        (let result = ToLower unicode whoisResult;
             isAvailable = (firstIndicator result availableIndicators \<noteq> None)
         in if \<not> isAvailable then
              (if firstIndicator result registeredIndicators \<noteq> None then [''WHOIS''] else []) @
              (if firstIndicator result reservedIndicators \<noteq> None then [''RESERVED''] else [])
            else [])
      else [])"

text \<open>
  What the TLS dial adds: \<open>SSL\<close> when the handshake succeeds and the peer presents at least
  one certificate.
\<close>

definition sslSignatures :: "string + nat \<Rightarrow> string list" where
  "sslSignatures dial =
     (case dial of
        Inr peerCertificates \<Rightarrow> if peerCertificates > 0 then [''SSL''] else []
      | Inl err \<Rightarrow> [])"

text \<open>\<open>globalConfig == nil || globalConfig.Scanner.Methods.X\<close>, for a switch \<open>X\<close>.\<close>

definition methodEnabled :: "Config option \<Rightarrow> (Config \<Rightarrow> bool) \<Rightarrow> bool" where
  "methodEnabled globalConfig method =
     (case globalConfig of None \<Rightarrow> True | Some config \<Rightarrow> method config)"

definition CheckDomainSignatures ::
  "UnicodeCase \<Rightarrow> Config option \<Rightarrow> string \<Rightarrow> SignatureProbes
     \<Rightarrow> string list \<times> string option" where
  "CheckDomainSignatures unicode globalConfig domain probes =
     (let signatures1 =
            (if methodEnabled globalConfig DNSCheck then
               (case checkDNSRecords domain probes of
                  (dnsSignatures, None) \<Rightarrow> dnsSignatures
                | (dnsSignatures, Some err) \<Rightarrow> [])
             else []);
          signatures2 = signatures1 @
            (if methodEnabled globalConfig WHOISCheck then
               whoisSignatures unicode (signaturesWhoisLoop (Whois probes) 3 0)
             else []);
          signatures3 = signatures2 @
            (if methodEnabled globalConfig SSLCheck then sslSignatures (TLSDial probes)
             else [])
      in (signatures3, None))"

subsection \<open>CheckDomainAvailability\<close>

definition addToSpecialStatus ::
  "string \<Rightarrow> string \<Rightarrow> SpecialStatusDomain list \<Rightarrow> SpecialStatusDomain list" where
  "addToSpecialStatus domain reason specialStatusDomains =
     specialStatusDomains @
       [\<lparr>Domain_s = domain, Status = reason, Reason = ''WHOIS status: '' @ reason\<rparr>]"

text \<open>
  The functions below return the pair \<open>(bool, error)\<close> of the source, the error being
  \<open>None\<close> for \<open>nil\<close>, together with the special-status list as they leave it.
\<close>

definition handleRateLimitedDomain ::
  "Config option \<Rightarrow> string \<Rightarrow> bool \<Rightarrow> SpecialStatusDomain list
     \<Rightarrow> (bool \<times> string option) \<times> SpecialStatusDomain list" where
  "handleRateLimitedDomain globalConfig domain hasDNSSignatures specialStatusDomains =
     (if hasDNSSignatures then ((False, None), specialStatusDomains)
      else
        ((True, None),
         (if globalConfig \<noteq> None
          then addToSpecialStatus domain ''WHOIS_RATE_LIMITED'' specialStatusDomains
          else specialStatusDomains)))"

text \<open>
  The loop over the signatures that sets \<open>hasRegistrationSignatures\<close>,
  \<open>hasDNSSignatures\<close> and \<open>hasWHOISSignature\<close>, in this order in the triple.
\<close>

definition signatureFlag :: "string \<Rightarrow> bool \<times> bool \<times> bool \<Rightarrow> bool \<times> bool \<times> bool" where
  "signatureFlag sig flags =
     (case flags of (hasRegistrationSignatures, hasDNSSignatures, hasWHOISSignature) \<Rightarrow>
        if sig = ''DNS_NS'' \<or> sig = ''DNS_A'' \<or> sig = ''DNS_MX'' \<or> sig = ''DNS_TXT'' \<or>
           sig = ''DNS_CNAME''
        then (True, True, hasWHOISSignature)
        else if sig = ''WHOIS'' then (True, hasDNSSignatures, True)
        else if sig = ''SSL'' then (True, hasDNSSignatures, hasWHOISSignature)
        else (hasRegistrationSignatures, hasDNSSignatures, hasWHOISSignature))"

text \<open>
  The WHOIS loop of \<open>CheckDomainAvailability\<close>, from attempt \<open>i\<close> on. A \<open>continue\<close> and the
  end of an iteration go to attempt \<open>i + 1\<close>; the \<open>break\<close> after the indicator tables and
  the end of the loop reach the final \<open>return true, nil\<close>.
\<close>

function availabilityWhoisLoop ::
  "UnicodeCase \<Rightarrow> Config option \<Rightarrow> string \<Rightarrow> bool \<Rightarrow> (nat \<Rightarrow> whois_reply) \<Rightarrow> nat \<Rightarrow> nat
     \<Rightarrow> SpecialStatusDomain list \<Rightarrow> (bool \<times> string option) \<times> SpecialStatusDomain list" where
  "availabilityWhoisLoop unicode globalConfig domain hasDNSSignatures whois maxRetries i
       specialStatusDomains =
     (if i < maxRetries then
        (case whois i of
           WhoisResult r \<Rightarrow>
             (let result = ToLower unicode r in
              if isRateLimit result then
                (if i < maxRetries - 1 then
                   availabilityWhoisLoop unicode globalConfig domain hasDNSSignatures whois maxRetries
                     (i + 1) specialStatusDomains
                 else
                   handleRateLimitedDomain globalConfig domain hasDNSSignatures
                     specialStatusDomains)
              else if firstIndicator result availableIndicators \<noteq> None then
                ((True, None), specialStatusDomains)
              else if firstIndicator result enhancedRegisteredIndicators \<noteq> None then
                ((False, None), specialStatusDomains)
              else
                (case firstIndicator result specialStatusIndicators of
                   Some indicator \<Rightarrow>
                     ((False, None),
                      addToSpecialStatus domain (ToUpper unicode (TrimPrefix indicator ''status: ''))
                        specialStatusDomains)
                 | None \<Rightarrow> ((True, None), specialStatusDomains)))
         | WhoisError err \<Rightarrow>
             (let errorStr = ToLower unicode err in
              if isRateLimit errorStr then
                (if i = maxRetries - 1 then
                   handleRateLimitedDomain globalConfig domain hasDNSSignatures
                     specialStatusDomains
                 else
                   availabilityWhoisLoop unicode globalConfig domain hasDNSSignatures whois maxRetries
                     (i + 1) specialStatusDomains)
              else
                availabilityWhoisLoop unicode globalConfig domain hasDNSSignatures whois maxRetries
                  (i + 1) specialStatusDomains))
      else ((True, None), specialStatusDomains))"
  by pat_completeness auto
termination
  by (relation "measure (\<lambda>(unicode, globalConfig, domain, hasDNSSignatures, whois, maxRetries, i,
        specialStatusDomains). maxRetries - i)") auto

declare availabilityWhoisLoop.simps [simp del]

text \<open>
  \<open>probes\<close> are the network's answers to the call of \<open>CheckDomainSignatures\<close> at the
  start, \<open>whois\<close> its answers to the attempts of the loop.
\<close>

definition CheckDomainAvailability ::
  "UnicodeCase \<Rightarrow> Config option \<Rightarrow> string \<Rightarrow> SignatureProbes \<Rightarrow> (nat \<Rightarrow> whois_reply)
     \<Rightarrow> SpecialStatusDomain list \<Rightarrow> (bool \<times> string option) \<times> SpecialStatusDomain list" where
  "CheckDomainAvailability unicode globalConfig domain probes whois specialStatusDomains =
     (case CheckDomainSignatures unicode globalConfig domain probes of
        (signatures, Some err) \<Rightarrow> ((False, Some err), specialStatusDomains)
      | (signatures, None) \<Rightarrow>
          if ''RESERVED'' \<in> set signatures then ((False, None), specialStatusDomains)
          else
            (case fold signatureFlag signatures (False, False, False) of
               (hasRegistrationSignatures, hasDNSSignatures, hasWHOISSignature) \<Rightarrow>
                 if hasRegistrationSignatures then ((False, None), specialStatusDomains)
                 else
                   availabilityWhoisLoop unicode globalConfig domain hasDNSSignatures whois 5 0
                     specialStatusDomains))"

section \<open>Package worker and the aggregator\<close>

text \<open>
  What the network answers while a worker handles one job: to the call of
  \<open>CheckDomainAvailability\<close> (its signature probes and its WHOIS loop) and to the call of
  \<open>CheckDomainSignatures\<close> that follows.
\<close>

record JobProbes =
  availabilityProbes :: SignatureProbes
  availabilityWhois :: "nat \<Rightarrow> whois_reply"
  signatureProbes :: SignatureProbes

text \<open>
  \<open>Worker\<close> on the jobs it receives from the channel, in order: the results it sends and
  the special-status list at the end. The field \<open>SpecialStatus\<close> is the empty string the
  source assigns.
\<close>

fun Worker ::
  "UnicodeCase \<Rightarrow> Config option \<Rightarrow> (string \<times> JobProbes) list \<Rightarrow> SpecialStatusDomain list
     \<Rightarrow> DomainResult list \<times> SpecialStatusDomain list" where
  "Worker unicode globalConfig [] specialStatusDomains = ([], specialStatusDomains)"
| "Worker unicode globalConfig ((domainName, answers) # jobs) specialStatusDomains =
     (case CheckDomainAvailability unicode globalConfig domainName (availabilityProbes answers)
             (availabilityWhois answers) specialStatusDomains of
        ((available, err), specialStatusDomains1) \<Rightarrow>
          (case CheckDomainSignatures unicode globalConfig domainName (signatureProbes answers) of
             (signatures, err2) \<Rightarrow>
               (let specialStatus = [];
                    result = \<lparr>Domain_r = domainName, Available = available, Error = err,
                      Signatures = signatures, SpecialStatus = specialStatus\<rparr>
                in (case Worker unicode globalConfig jobs specialStatusDomains1 of
                      (results, specialStatusDomains2) \<Rightarrow>
                        (result # results, specialStatusDomains2)))))"

text \<open>
  The collector of \<open>main\<close>. A status message is kept as the branch that printed it with
  the values it formats.
\<close>

datatype status_message =
    ErrorMessage nat string string
  | AvailableMessage nat string
  | RegisteredMessage nat string "string list"

record Collector =
  processedCount :: nat
  statusChan :: "status_message list"
  availableDomains :: "string list"
  registeredDomains :: "string list"

definition collectResult :: "bool \<Rightarrow> DomainResult \<Rightarrow> Collector \<Rightarrow> Collector" where
  "collectResult showRegistered result c =
     (let progress = processedCount c + 1;
          c1 = c\<lparr>processedCount := progress\<rparr>
      in case Error result of
           Some err \<Rightarrow>
             c1\<lparr>statusChan := statusChan c1 @ [ErrorMessage progress (Domain_r result) err]\<rparr>
         | None \<Rightarrow>
             if Available result then
               c1\<lparr>statusChan := statusChan c1 @ [AvailableMessage progress (Domain_r result)],
                  availableDomains := availableDomains c1 @ [Domain_r result]\<rparr>
             else if showRegistered then
               c1\<lparr>statusChan := statusChan c1 @
                    [RegisteredMessage progress (Domain_r result) (Signatures result)],
                  registeredDomains := registeredDomains c1 @ [Domain_r result]\<rparr>
             else c1)"

definition collectResults :: "bool \<Rightarrow> DomainResult list \<Rightarrow> Collector" where
  "collectResults showRegistered results =
     fold (collectResult showRegistered) results
       \<lparr>processedCount = 0, statusChan = [], availableDomains = [], registeredDomains = []\<rparr>"

fun isErrorMessage :: "status_message \<Rightarrow> bool" where
  "isErrorMessage (ErrorMessage progress domain err) = True"
| "isErrorMessage (AvailableMessage progress domain) = False"
| "isErrorMessage (RegisteredMessage progress domain signatures) = False"

section \<open>Notions used to state the properties\<close>

text \<open>
  The seven signature tags that \<open>CheckDomainAvailability\<close> counts as registration
  signatures, and the five among them that count as DNS signatures.
\<close>

definition dnsSignatureTags :: "string list" where
  "dnsSignatureTags = [''DNS_NS'', ''DNS_A'', ''DNS_MX'', ''DNS_TXT'', ''DNS_CNAME'']"

definition registrationSignatureTags :: "string list" where
  "registrationSignatureTags = dnsSignatureTags @ [''WHOIS'', ''SSL'']"


definition retriedReply :: "UnicodeCase \<Rightarrow> whois_reply \<Rightarrow> bool" where
  "retriedReply unicode reply =
     (case reply of WhoisResult r \<Rightarrow> isRateLimit (ToLower unicode r) | WhoisError err \<Rightarrow> True)"

definition matchesNoIndicator :: "string \<Rightarrow> bool" where
  "matchesNoIndicator result =
     (firstIndicator result availableIndicators = None \<and>
      firstIndicator result reservedIndicators = None \<and>
      firstIndicator result registeredIndicators = None \<and>
      firstIndicator result enhancedRegisteredIndicators = None \<and>
      firstIndicator result specialStatusIndicators = None)"

definition silentReply :: "UnicodeCase \<Rightarrow> whois_reply \<Rightarrow> bool" where
  "silentReply unicode reply =
     (case reply of
        WhoisResult r \<Rightarrow> \<not> isRateLimit (ToLower unicode r) \<and> matchesNoIndicator (ToLower unicode r)
      | WhoisError err \<Rightarrow> False)"

text \<open>
  The classification of a WHOIS response as the specification words it: the lowercased
  text is matched against the four tables in the order available, reserved, registered,
  special status, and the first table with a match decides. A reserved match gives the
  signature \<open>RESERVED\<close>, a registered match the signature \<open>WHOIS\<close>.
\<close>

datatype whois_class =
    ClassAvailable
  | ClassReserved
  | ClassRegistered
  | ClassSpecial string
  | ClassNone

definition spec_classifyWhois :: "UnicodeCase \<Rightarrow> string \<Rightarrow> whois_class" where
  "spec_classifyWhois unicode response =
     (let result = ToLower unicode response in
      if firstIndicator result availableIndicators \<noteq> None then ClassAvailable
      else if firstIndicator result reservedIndicators \<noteq> None then ClassReserved
      else if firstIndicator result registeredIndicators \<noteq> None then ClassRegistered
      else
        (case firstIndicator result specialStatusIndicators of
           Some indicator \<Rightarrow> ClassSpecial (ToUpper unicode (TrimPrefix indicator ''status: ''))
         | None \<Rightarrow> ClassNone))"

definition spec_whoisSignatures :: "UnicodeCase \<Rightarrow> string \<Rightarrow> string list" where
  "spec_whoisSignatures unicode response =
     (case spec_classifyWhois unicode response of
        ClassReserved \<Rightarrow> [''RESERVED'']
      | ClassRegistered \<Rightarrow> [''WHOIS'']
      | ClassAvailable \<Rightarrow> []
      | ClassSpecial reason \<Rightarrow> []
      | ClassNone \<Rightarrow> [])"

section \<open>Sample inputs\<close>

text \<open>
  The sample inputs below are ASCII text, on which \<open>ToLower\<close> and \<open>ToUpper\<close> never call
  \<open>strings.Map\<close>; \<open>sampleUnicode\<close> stands in for the Unicode mapping where a closed input
  needs one.
\<close>

definition sampleUnicode :: UnicodeCase where
  "sampleUnicode = \<lparr>MapToLower = (\<lambda>s. s), MapToUpper = (\<lambda>s. s)\<rparr>"

text \<open>
  A network on which no probe finds anything: every lookup and the TLS dial fail, and
  every WHOIS attempt of \<open>CheckDomainSignatures\<close> times out.
\<close>

definition quietProbes :: SignatureProbes where
  "quietProbes =
     \<lparr>LookupNS = Inl ''no such host'', LookupIP = Inl ''no such host'',
      LookupMX = Inl ''no such host'', LookupTXT = Inl ''no such host'',
      LookupCNAME = Inl ''no such host'', Whois = (\<lambda>i. WhoisError ''i/o timeout''),
      TLSDial = Inl ''i/o timeout''\<rparr>"


text \<open>A configuration with every method on.\<close>

definition allMethods :: Config where
  "allMethods = \<lparr>DNSCheck = True, WHOISCheck = True, SSLCheck = True, HTTPCheck = False\<rparr>"

text \<open>
  A name in its redemption period that no DNS lookup and no TLS dial sees: every WHOIS
  query answers \<open>Status: REDEMPTIONPERIOD\<close>. \<open>redemptionJob\<close> is the job of a worker for
  such a name, \<open>redemptionAddressJob\<close> the job for one that has an address record as well.
\<close>

definition redemptionProbes :: SignatureProbes where
  "redemptionProbes = quietProbes\<lparr>Whois := (\<lambda>i. WhoisResult ''Status: REDEMPTIONPERIOD'')\<rparr>"

definition redemptionJob :: JobProbes where
  "redemptionJob =
     \<lparr>availabilityProbes = redemptionProbes,
      availabilityWhois = (\<lambda>i. WhoisResult ''Status: REDEMPTIONPERIOD''),
      signatureProbes = redemptionProbes\<rparr>"

definition redemptionAddressJob :: JobProbes where
  "redemptionAddressJob =
     \<lparr>availabilityProbes = redemptionProbes\<lparr>LookupIP := Inr 1\<rparr>,
      availabilityWhois = (\<lambda>i. WhoisResult ''Status: REDEMPTIONPERIOD''),
      signatureProbes = redemptionProbes\<lparr>LookupIP := Inr 1\<rparr>\<rparr>"

section \<open>Properties of the string functions\<close>

lemma HasPrefix_iff: "HasPrefix s p \<longleftrightarrow> (\<exists>b. s = p @ b)"
  by (induction s p rule: HasPrefix.induct) auto

lemma Contains_iff: "Contains s sub \<longleftrightarrow> (\<exists>a b. s = a @ sub @ b)"
proof (induction s)
  case Nil
  then show ?case by auto
next
  case (Cons c cs)
  show ?case
  proof
    assume "Contains (c # cs) sub"
    then consider "HasPrefix (c # cs) sub" | "Contains cs sub" by auto
    then show "\<exists>a b. c # cs = a @ sub @ b"
    proof cases
      case 1
      then obtain b where "c # cs = sub @ b" by (auto simp: HasPrefix_iff)
      then have "c # cs = [] @ sub @ b" by simp
      then show ?thesis by blast
    next
      case 2
      then obtain a b where "cs = a @ sub @ b" using Cons.IH by auto
      then have "c # cs = (c # a) @ sub @ b" by simp
      then show ?thesis by blast
    qed
  next
    assume "\<exists>a b. c # cs = a @ sub @ b"
    then obtain a b where ab: "c # cs = a @ sub @ b" by blast
    show "Contains (c # cs) sub"
    proof (cases a)
      case Nil
      then have "HasPrefix (c # cs) sub" using ab by (auto simp: HasPrefix_iff)
      then show ?thesis by simp
    next
      case (Cons x a')
      then have "cs = a' @ sub @ b" using ab by simp
      then have "Contains cs sub" using Cons.IH by blast
      then show ?thesis by simp
    qed
  qed
qed

lemma ToLower_ASCII: "isASCII s \<Longrightarrow> ToLower unicode s = map lowerByte s"
  by (simp add: ToLower_def)

lemma Contains_ToLower:
  assumes "isASCII s" and "Contains s sub"
  shows "Contains (ToLower unicode s) (map lowerByte sub)"
proof -
  from assms(2) obtain a b where "s = a @ sub @ b" by (auto simp: Contains_iff)
  then have "ToLower unicode s = map lowerByte a @ map lowerByte sub @ map lowerByte b"
    using assms(1) by (simp add: ToLower_ASCII)
  then show ?thesis unfolding Contains_iff by blast
qed

section \<open>Properties of the generator\<close>

subsection \<open>The loops\<close>

lemma wrap64_id: "- (2 ^ 63) \<le> x \<Longrightarrow> x < 2 ^ 63 \<Longrightarrow> wrap64 x = x"
  by (simp add: wrap64_def)

lemma totalLoop_pow:
  "0 < s \<Longrightarrow> 0 \<le> t \<Longrightarrow> t * s ^ nat (len - i) < 2 ^ 63 \<Longrightarrow>
   totalLoop s len i t = t * s ^ nat (len - i)"
proof (induction s len i t rule: totalLoop.induct)
  case (1 s len i t)
  show ?case
  proof (cases "i < len")
    case True
    then have n: "nat (len - i) = Suc (nat (len - (i + 1)))" by simp
    have le: "t * s \<le> t * s ^ nat (len - i)"
      using "1.prems" n by (simp add: mult_left_mono self_le_power)
    have nn: "0 \<le> t * s" using "1.prems" by simp
    have w: "wrap64 (t * s) = t * s"
      using le nn "1.prems"(3) by (intro wrap64_id) auto
    have "totalLoop s len (i + 1) (wrap64 (t * s)) = wrap64 (t * s) * s ^ nat (len - (i + 1))"
      using True "1.prems" w n nn by (intro "1.IH") (auto simp: mult.assoc)
    then show ?thesis using True w n by (subst totalLoop.simps) (simp add: mult.assoc)
  next
    case False
    then show ?thesis by (subst totalLoop.simps) simp
  qed
qed

lemma totalLoop_nonpos: "len \<le> 0 \<Longrightarrow> totalLoop s len 0 t = t"
  by (subst totalLoop.simps) simp


lemma length_counterString: "length (counterString cs n k) = n"
  by (induction n arbitrary: k) auto

lemma currentLoop_counterString:
  "0 \<le> temp \<Longrightarrow>
   currentLoop cs len i temp cur = counterString cs (nat (len - i)) (nat temp) @ cur"
proof (induction cs len i temp cur rule: currentLoop.induct)
  case (1 cs len i temp cur)
  show ?case
  proof (cases "i < len")
    case True
    then have n: "nat (len - i) = Suc (nat (len - (i + 1)))" by simp
    have d: "0 \<le> temp div int (length cs)" using "1.prems" by (simp add: pos_imp_zdiv_nonneg_iff div_int_pos_iff)
    have nd: "nat (temp div int (length cs)) = nat temp div length cs"
      using "1.prems" by (simp add: nat_div_distrib)
    have nm: "nat (temp mod int (length cs)) = nat temp mod length cs"
      using "1.prems" by (simp add: nat_mod_distrib)
    have "currentLoop cs len (i + 1) (temp div int (length cs))
            (cs ! nat (temp mod int (length cs)) # cur) =
          counterString cs (nat (len - (i + 1))) (nat (temp div int (length cs))) @
            (cs ! nat (temp mod int (length cs)) # cur)"
      using True d by (intro "1.IH") auto
    then show ?thesis using True n nd nm
      by (subst currentLoop.simps) simp
  next
    case False
    then show ?thesis by (subst currentLoop.simps) simp
  qed
qed

lemma counterString_nth:
  "j < n \<Longrightarrow>
   counterString cs n k ! j = cs ! ((k div length cs ^ (n - 1 - j)) mod length cs)"
proof (induction n arbitrary: k j)
  case 0
  then show ?case by simp
next
  case (Suc n)
  show ?case
  proof (cases "j < n")
    case True
    then have e: "n - j = Suc (n - 1 - j)" by simp
    have "counterString cs (Suc n) k ! j = counterString cs n (k div length cs) ! j"
      using True by (simp add: nth_append length_counterString)
    also have "\<dots> = cs ! (((k div length cs) div length cs ^ (n - 1 - j)) mod length cs)"
      using True by (rule Suc.IH)
    also have "(k div length cs) div length cs ^ (n - 1 - j) = k div length cs ^ (n - j)"
      by (simp add: e div_mult2_eq)
    finally show ?thesis by simp
  next
    case False
    then have "j = n" using Suc.prems by simp
    then show ?thesis by (simp add: nth_append length_counterString)
  qed
qed

lemma counterString_inj:
  "distinct cs \<Longrightarrow> k < length cs ^ n \<Longrightarrow> k' < length cs ^ n \<Longrightarrow>
   counterString cs n k = counterString cs n k' \<Longrightarrow> k = k'"
proof (induction n arbitrary: k k')
  case 0
  then show ?case by simp
next
  case (Suc n)
  have pos: "0 < length cs" using Suc.prems(2) by (cases "length cs") auto
  from Suc.prems(4) have
    pre: "counterString cs n (k div length cs) = counterString cs n (k' div length cs)" and
    lst: "cs ! (k mod length cs) = cs ! (k' mod length cs)"
    by (auto simp: length_counterString)
  have "k div length cs < length cs ^ n" "k' div length cs < length cs ^ n"
    using Suc.prems(2,3) pos by (simp_all add: less_mult_imp_div_less mult.commute)
  then have dv: "k div length cs = k' div length cs"
    using Suc.IH [OF Suc.prems(1) _ _ pre] by blast
  have md: "k mod length cs = k' mod length cs"
    using lst Suc.prems(1) pos by (simp add: nth_eq_iff_index_eq)
  show ?case using dv md by (metis div_mult_mod_eq)
qed

lemma counterLoop_filter:
  "counterLoop cs len suf regex mode tot c =
     map (\<lambda>k. currentLoop cs len 0 k [] @ suf)
       (filter (\<lambda>k. matchDomain regex mode (currentLoop cs len 0 k [])
          (currentLoop cs len 0 k [] @ suf)) [c..tot - 1])"
proof (induction cs len suf regex mode tot c rule: counterLoop.induct)
  case (1 cs len suf regex mode tot c)
  show ?case
  proof (cases "c < tot")
    case True
    then have u: "[c..tot - 1] = c # [c + 1..tot - 1]" by (simp add: upto_rec1)
    show ?thesis using True "1.IH" [OF True refl refl]
      by (subst counterLoop.simps) (simp add: u Let_def)
  next
    case False
    then show ?thesis by (subst counterLoop.simps) simp
  qed
qed

lemma matchDomain_None:
  "mode = RegexModeFull \<or> mode = RegexModePrefix \<Longrightarrow> matchDomain None mode cur d"
  by (auto simp: matchDomain_def)

lemma matchDomain_Full:
  "matchDomain (Some r) RegexModeFull cur d \<longleftrightarrow> r d = Inr True"
  by (auto simp: matchDomain_def safeRegexMatch_def split: sum.splits)

lemma matchDomain_Prefix:
  "matchDomain (Some r) RegexModePrefix cur d \<longleftrightarrow> r cur = Inr True"
  by (auto simp: matchDomain_def safeRegexMatch_def RegexModeFull_def RegexModePrefix_def
      split: sum.splits)

lemma upto_as_map: "0 \<le> t \<Longrightarrow> [0..t - 1] = map int [0..<nat t]"
proof (induction "nat t" arbitrary: t)
  case 0
  then show ?case by simp
next
  case (Suc n)
  then have t: "t = int n + 1" by linarith
  have "[0..int n] = [0..int n - 1] @ [int n]"
    by (simp add: upto_rec2)
  also have "[0..int n - 1] = map int [0..<n]"
    using Suc.hyps(1) [of "int n"] by simp
  finally have "[0..int n] = map int [0..<Suc n]" by simp
  moreover have "nat t = Suc n" using t by simp
  ultimately show ?case using t by simp
qed

lemma generate_unfiltered:
  assumes "cs \<noteq> []" and "1 \<le> len" and "int (length cs) ^ nat len < 2 ^ 63"
    and "mode = RegexModeFull \<or> mode = RegexModePrefix"
  shows "generateCombinationsIterative cs len suf None mode =
           map (\<lambda>k. counterString cs (nat len) k @ suf) [0..<length cs ^ nat len]"
proof -
  have s: "0 < int (length cs)" using assms(1) by simp
  have tot: "totalLoop (int (length cs)) len 0 1 = int (length cs) ^ nat len"
    using totalLoop_pow [of "int (length cs)" 1 len 0] s assms(3) by simp
  have nt: "nat (int (length cs) ^ nat len) = length cs ^ nat len"
    by (simp add: nat_power_eq)
  have "generateCombinationsIterative cs len suf None mode =
          map (\<lambda>k. currentLoop cs len 0 k [] @ suf) [0..int (length cs) ^ nat len - 1]"
    using assms(1,2,4)
    by (simp add: generateCombinationsIterative_def tot counterLoop_filter matchDomain_None)
  also have "\<dots> = map (\<lambda>k. currentLoop cs len 0 k [] @ suf)
      (map int [0..<length cs ^ nat len])"
    using upto_as_map [of "int (length cs) ^ nat len"] nt by simp
  also have "\<dots> = map (\<lambda>k. counterString cs (nat len) k @ suf) [0..<length cs ^ nat len]"
    by (simp add: currentLoop_counterString)
  finally show ?thesis .
qed

lemma distinct_alphabet: "distinct (alphabet p)"
  by (simp add: alphabet_def letters_def numbers_def)

lemma alphabet_nonempty: "alphabet p \<noteq> []"
  by (simp add: alphabet_def letters_def numbers_def)

lemma length_alphabet:
  "length (alphabet ''d'') = 10" "length (alphabet ''D'') = 26" "length (alphabet ''a'') = 36"
  by (simp_all add: alphabet_def letters_def numbers_def)

lemma GenerateDomains_alphabet:
  "pattern = ''d'' \<or> pattern = ''D'' \<or> pattern = ''a'' \<Longrightarrow>
   GenerateDomains compile len suf pattern [] mode =
     Inr (generateCombinationsIterative (alphabet pattern) len suf None mode)"
  by (auto simp: GenerateDomains_def alphabet_def)

lemma CalculateDomainsCount_alphabet:
  "pattern = ''d'' \<or> pattern = ''D'' \<or> pattern = ''a'' \<Longrightarrow>
   CalculateDomainsCount len pattern = totalLoop (int (length (alphabet pattern))) len 0 1"
  by (auto simp: CalculateDomainsCount_def length_alphabet)

lemma distinct_combinations:
  assumes "distinct cs"
  shows "distinct (map (\<lambda>k. counterString cs n k @ suf) [0..<length cs ^ n])"
proof -
  have "inj_on (\<lambda>k. counterString cs n k @ suf) (set [0..<length cs ^ n])"
    by (rule inj_onI) (auto dest: counterString_inj [OF assms])
  then show ?thesis by (simp add: distinct_map)
qed

subsection \<open>The unfiltered enumeration\<close>

text \<open>
  Claim C4, as the code has it. For each of the patterns \<open>d\<close>, \<open>D\<close> and \<open>a\<close> and every
  length of at least 1 whose number of combinations is below \<open>2 ^ 63\<close> (it fits Go's
  \<open>int\<close>), \<open>GenerateDomains\<close> without a regex filter sends exactly
  \<open>alphabetSize ^ length\<close> strings. The string at position \<open>k\<close> is the counter \<open>k\<close>
  written with \<open>length\<close> symbols of the alphabet by repeated division and modulo,
  followed by the suffix: its symbol at position \<open>j\<close> is the digit of weight
  \<open>alphabetSize ^ (length - 1 - j)\<close>, so the most significant symbol comes first. Every
  string has \<open>length + |suffix|\<close> bytes, the strings are pairwise distinct, and their
  number is what \<open>CalculateDomainsCount\<close> returns.
\<close>

theorem generator_emits_every_combination:
  assumes "pattern = ''d'' \<or> pattern = ''D'' \<or> pattern = ''a''"
    and "1 \<le> len"
    and "int (length (alphabet pattern)) ^ nat len < 2 ^ 63"
    and "regexMode = RegexModeFull \<or> regexMode = RegexModePrefix"
  shows "\<exists>xs. GenerateDomains compile len suffix pattern [] regexMode = Inr xs \<and>
           length xs = length (alphabet pattern) ^ nat len \<and>
           (\<forall>k < length xs. xs ! k = counterString (alphabet pattern) (nat len) k @ suffix) \<and>
           (\<forall>k < length xs. length (xs ! k) = nat len + length suffix) \<and>
           (\<forall>k < length xs. \<forall>j < nat len. xs ! k ! j =
              alphabet pattern !
                ((k div length (alphabet pattern) ^ (nat len - 1 - j)) mod
                  length (alphabet pattern))) \<and>
           distinct xs \<and>
           CalculateDomainsCount len pattern = int (length xs)"
proof -
  let ?cs = "alphabet pattern"
  let ?xs = "map (\<lambda>k. counterString ?cs (nat len) k @ suffix) [0..<length ?cs ^ nat len]"
  have g: "GenerateDomains compile len suffix pattern [] regexMode = Inr ?xs"
    using assms by (simp add: GenerateDomains_alphabet generate_unfiltered alphabet_nonempty)
  have c: "CalculateDomainsCount len pattern = int (length ?xs)"
    using assms(1,3) totalLoop_pow [of "int (length ?cs)" 1 len 0] alphabet_nonempty [of pattern]
    by (simp add: CalculateDomainsCount_alphabet)
  have d: "distinct ?xs" by (rule distinct_combinations [OF distinct_alphabet])
  have n: "\<forall>k < length ?xs. \<forall>j < nat len. ?xs ! k ! j =
      ?cs ! ((k div length ?cs ^ (nat len - 1 - j)) mod length ?cs)"
    by (simp add: nth_append length_counterString counterString_nth)
  show ?thesis
    apply (rule exI [of _ ?xs])
    using g c d n by (simp add: length_counterString)
qed

text \<open>A sample counter, evaluated.\<close>

lemma counterString_42: "counterString (alphabet ''d'') (nat 2) 42 = ''42''"
  by code_simp

text \<open>
  Claim C4 as the code has it, at length 2, pattern \<open>d\<close> and suffix \<open>.li\<close>: 100 names, of which
  the one at position 42 is \<open>42.li\<close>.
\<close>

theorem generator_emits_every_combination_witness:
  "\<exists>xs. GenerateDomains (\<lambda>f. Inl []) 2 ''.li'' ''d'' [] RegexModeFull = Inr xs \<and>
     length xs = 100 \<and> xs ! 42 = ''42.li'' \<and> length (xs ! 42) = 5 \<and> distinct xs \<and>
     CalculateDomainsCount 2 ''d'' = 100"
proof -
  have p: "''d'' = ''d'' \<or> ''d'' = ''D'' \<or> ''d'' = ''a''" by simp
  have l: "(1::int) \<le> 2" by simp
  have b: "int (length (alphabet ''d'')) ^ nat 2 < 2 ^ 63" by (simp add: length_alphabet)
  have m: "RegexModeFull = RegexModeFull \<or> RegexModeFull = RegexModePrefix" by simp
  have n: "length (alphabet ''d'') ^ nat 2 = 100" by (simp add: length_alphabet)
  from generator_emits_every_combination [OF p l b m, of "\<lambda>f. Inl []" "''.li''"]
  obtain xs where
    g: "GenerateDomains (\<lambda>f. Inl []) 2 ''.li'' ''d'' [] RegexModeFull = Inr xs" and
    len: "length xs = length (alphabet ''d'') ^ nat 2" and
    nth: "\<forall>k < length xs. xs ! k = counterString (alphabet ''d'') (nat 2) k @ ''.li''" and
    d: "distinct xs" and
    c: "CalculateDomainsCount 2 ''d'' = int (length xs)"
    by blast
  have x: "xs ! 42 = ''42.li''" using nth len n counterString_42 by simp
  show ?thesis using g len n x d c by simp
qed

text \<open>
  Claim C4 as it is worded fails at pattern \<open>d\<close> and length 19: the product \<open>10 ^ 19\<close>
  leaves the range of \<open>int\<close> and wraps to a negative number, so the generator sends
  nothing, and \<open>CalculateDomainsCount\<close> returns that negative number.
\<close>

theorem generator_overflow_counterexample:
  "GenerateDomains (\<lambda>f. Inl []) 19 ''.li'' ''d'' [] RegexModeFull = Inr [] \<and>
   CalculateDomainsCount 19 ''d'' = - 8446744073709551616"
  by code_simp

subsection \<open>The regex filter\<close>

lemma generate_filtered:
  "generateCombinationsIterative cs len suf regex mode =
     (if cs = [] \<or> len \<le> 0 then []
      else map (\<lambda>k. currentLoop cs len 0 k [] @ suf)
        (filter (\<lambda>k. matchDomain regex mode (currentLoop cs len 0 k [])
           (currentLoop cs len 0 k [] @ suf))
           [0..totalLoop (int (length cs)) len 0 1 - 1]))"
  by (simp add: generateCombinationsIterative_def counterLoop_filter)

text \<open>The scenario, evaluated.\<close>

lemma scenario_eval:
  "generateCombinationsIterative letters 2 ''.ai'' (Some (\<lambda>s. Inr (HasPrefix s ''a'')))
     RegexModeFull = map (\<lambda>c. [CHR ''a'', c] @ ''.ai'') letters"
  by code_simp

lemma validate_caret_a: "validateRegexComplexity ''^a'' = None"
  by code_simp

text \<open>
  Claim C5. With a compiled filter \<open>r\<close>, mode \<open>full\<close> sends exactly the candidates of
  the unfiltered enumeration whose whole name (body and suffix) \<open>r\<close> matches, and mode
  \<open>prefix\<close> exactly those whose body before the suffix \<open>r\<close> matches; a candidate that
  \<open>r\<close> does not match, or on which the match fails with an error, is never sent. For
  length 2, suffix \<open>.ai\<close>, pattern \<open>D\<close> and the filter \<open>^a\<close> in mode \<open>full\<close> (the
  engine's compiled \<open>^a\<close> being a filter that matches the strings starting with \<open>a\<close>),
  the generator sends the 26 names \<open>aa.ai\<close> to \<open>az.ai\<close>, in this order.
\<close>

theorem regex_filter_modes:
  "generateCombinationsIterative charset len suffix (Some r) RegexModeFull =
     filter (\<lambda>domain. r domain = Inr True)
       (generateCombinationsIterative charset len suffix None RegexModeFull) \<and>
   generateCombinationsIterative charset len suffix (Some r) RegexModePrefix =
     map (\<lambda>current. current @ suffix)
       (filter (\<lambda>current. r current = Inr True)
         (generateCombinationsIterative charset len [] None RegexModePrefix)) \<and>
   (\<forall>domain \<in> set (generateCombinationsIterative charset len suffix (Some r) RegexModeFull).
      r domain = Inr True) \<and>
   (\<forall>domain \<in> set (generateCombinationsIterative charset len suffix (Some r) RegexModePrefix).
      \<exists>current. domain = current @ suffix \<and> r current = Inr True) \<and>
   (compile ''^a'' = Inr r \<and> (\<forall>s. r s = Inr (HasPrefix s ''a'')) \<longrightarrow>
      GenerateDomains compile 2 ''.ai'' ''D'' ''^a'' RegexModeFull =
        Inr (map (\<lambda>c. [CHR ''a'', c] @ ''.ai'') letters) \<and>
      length (map (\<lambda>c. [CHR ''a'', c] @ ''.ai'') letters) = 26)"
proof -
  have full: "generateCombinationsIterative charset len suffix (Some r) RegexModeFull =
     filter (\<lambda>domain. r domain = Inr True)
       (generateCombinationsIterative charset len suffix None RegexModeFull)"
    by (simp add: generate_filtered matchDomain_Full matchDomain_None filter_map comp_def)
  have pre: "generateCombinationsIterative charset len suffix (Some r) RegexModePrefix =
     map (\<lambda>current. current @ suffix)
       (filter (\<lambda>current. r current = Inr True)
         (generateCombinationsIterative charset len [] None RegexModePrefix))"
    by (simp add: generate_filtered matchDomain_Prefix matchDomain_None filter_map comp_def)
  have scen: "GenerateDomains compile 2 ''.ai'' ''D'' ''^a'' RegexModeFull =
        Inr (map (\<lambda>c. [CHR ''a'', c] @ ''.ai'') letters)"
    if c: "compile ''^a'' = Inr r" and r: "\<forall>s. r s = Inr (HasPrefix s ''a'')"
  proof -
    have "r = (\<lambda>s. Inr (HasPrefix s ''a''))" using r by auto
    then show ?thesis using c scenario_eval validate_caret_a
      by (simp add: GenerateDomains_def)
  qed
  have n: "length (map (\<lambda>c. [CHR ''a'', c] @ ''.ai'') letters) = 26"
    by (simp add: letters_def)
  show ?thesis
    apply (intro conjI)
    subgoal by (rule full)
    subgoal by (rule pre)
    subgoal by (simp add: full)
    subgoal by (auto simp: pre)
    subgoal using scen n by blast
    done
qed

text \<open>
  Claim C5 at the scenario, and in mode \<open>prefix\<close> at the alphabet \<open>ab\<close> with a filter for
  the bodies that start with \<open>b\<close>.
\<close>

theorem regex_filter_modes_witness:
  "GenerateDomains (\<lambda>f. Inr (\<lambda>s. Inr (HasPrefix s ''a''))) 2 ''.ai'' ''D'' ''^a'' RegexModeFull =
     Inr [''aa.ai'', ''ab.ai'', ''ac.ai'', ''ad.ai'', ''ae.ai'', ''af.ai'', ''ag.ai'', ''ah.ai'',
          ''ai.ai'', ''aj.ai'', ''ak.ai'', ''al.ai'', ''am.ai'', ''an.ai'', ''ao.ai'', ''ap.ai'',
          ''aq.ai'', ''ar.ai'', ''as.ai'', ''at.ai'', ''au.ai'', ''av.ai'', ''aw.ai'', ''ax.ai'',
          ''ay.ai'', ''az.ai''] \<and>
   generateCombinationsIterative ''ab'' 1 ''.li'' (Some (\<lambda>s. Inr (HasPrefix s ''b'')))
     RegexModePrefix = [''b.li'']"
proof -
  let ?r = "\<lambda>s. Inr (HasPrefix s ''a'') :: string + bool"
  let ?q = "\<lambda>s. Inr (HasPrefix s ''b'') :: string + bool"
  have u: "generateCombinationsIterative ''ab'' 1 [] None RegexModePrefix = [''a'', ''b'']"
    by code_simp
  have h: "(\<lambda>f. Inr ?r) ''^a'' = Inr ?r \<and> (\<forall>s. ?r s = Inr (HasPrefix s ''a''))"
    by simp
  note full = regex_filter_modes [of letters 2 "''.ai''" ?r "\<lambda>f. Inr ?r"]
  note scen = full [THEN conjunct2, THEN conjunct2, THEN conjunct2, THEN conjunct2,
      THEN mp, OF h, THEN conjunct1]
  note pre = regex_filter_modes [of "''ab''" 1 "''.li''" ?q "\<lambda>f. Inr ?q",
      THEN conjunct2, THEN conjunct1]
  have a: "GenerateDomains (\<lambda>f. Inr ?r) 2 ''.ai'' ''D'' ''^a'' RegexModeFull =
      Inr (map (\<lambda>c. [CHR ''a'', c] @ ''.ai'') letters)"
    by (rule scen)
  have b: "generateCombinationsIterative ''ab'' 1 ''.li'' (Some ?q) RegexModePrefix =
      [''b.li'']"
    by (simp add: pre u)
  have c: "map (\<lambda>c. [CHR ''a'', c] @ ''.ai'') letters =
      [''aa.ai'', ''ab.ai'', ''ac.ai'', ''ad.ai'', ''ae.ai'', ''af.ai'', ''ag.ai'', ''ah.ai'',
       ''ai.ai'', ''aj.ai'', ''ak.ai'', ''al.ai'', ''am.ai'', ''an.ai'', ''ao.ai'', ''ap.ai'',
       ''aq.ai'', ''ar.ai'', ''as.ai'', ''at.ai'', ''au.ai'', ''av.ai'', ''aw.ai'', ''ax.ai'',
       ''ay.ai'', ''az.ai'']"
    by (simp add: letters_def)
  show ?thesis using a b c by simp
qed

text \<open>The two patterns the specification names, evaluated.\<close>

lemma validate_accept: "validateRegexComplexity ''^[a-z]{2}[0-9]$'' = None"
  by code_simp

lemma validate_reject:
  "validateRegexComplexity ''(a+)+'' =
     Some ''detected potentially dangerous regex pattern: (a+)+''"
  by code_simp

subsection \<open>The regex guard\<close>

text \<open>
  Claim C6. \<open>validateRegexComplexity\<close> rejects every pattern of more than 200 bytes
  (so every pattern of more than 200 characters, a character taking at least one byte),
  every pattern that contains an entry of the deny-list (\<open>(a+)+\<close> is one), and every
  pattern in which \<open>+\<close> and \<open>*\<close> occur more than 5 times together; it accepts
  \<open>^[a-z]{2}[0-9]$\<close>.
\<close>

theorem validateRegexComplexity_guard:
  "(200 < length pattern \<longrightarrow>
      validateRegexComplexity pattern = Some ''regex pattern too long (max 200 characters)'') \<and>
   ((\<exists>dangerous \<in> set dangerousPatterns. Contains pattern dangerous) \<longrightarrow>
      validateRegexComplexity pattern \<noteq> None) \<and>
   (5 < CountByte pattern (CHR ''+'') + CountByte pattern (CHR ''*'') \<longrightarrow>
      validateRegexComplexity pattern \<noteq> None) \<and>
   ''(a+)+'' \<in> set dangerousPatterns \<and>
   validateRegexComplexity ''(a+)+'' =
     Some ''detected potentially dangerous regex pattern: (a+)+'' \<and>
   validateRegexComplexity ''^[a-z]{2}[0-9]$'' = None"
proof -
  have a: "validateRegexComplexity pattern \<noteq> None"
    if "\<exists>dangerous \<in> set dangerousPatterns. Contains pattern dangerous"
  proof -
    from that have "find (\<lambda>dangerous. Contains pattern dangerous) dangerousPatterns \<noteq> None"
      by (auto simp: find_None_iff)
    then show ?thesis by (auto simp: validateRegexComplexity_def)
  qed
  have b: "validateRegexComplexity pattern \<noteq> None"
    if "5 < CountByte pattern (CHR ''+'') + CountByte pattern (CHR ''*'')"
    using that by (simp add: validateRegexComplexity_def split: option.splits)
  have c: "''(a+)+'' \<in> set dangerousPatterns" by (simp add: dangerousPatterns_def)
  show ?thesis
    apply (intro conjI impI)
    subgoal by (simp add: validateRegexComplexity_def)
    subgoal by (rule a)
    subgoal by (rule b)
    subgoal by (rule c)
    subgoal by (rule validate_reject)
    subgoal by (rule validate_accept)
    done
qed

text \<open>
  Claim C6 at a pattern of 201 bytes, a pattern around a deny-listed shape and a pattern
  with six quantifiers.
\<close>

theorem validateRegexComplexity_guard_witness:
  "validateRegexComplexity (replicate 201 (CHR ''a'')) =
     Some ''regex pattern too long (max 200 characters)'' \<and>
   validateRegexComplexity ''x(.*)*y'' \<noteq> None \<and>
   validateRegexComplexity ''a+b+c+d*e*f*'' \<noteq> None \<and>
   validateRegexComplexity ''^[a-z]{2}[0-9]$'' = None"
proof -
  have 1: "200 < length (replicate 201 (CHR ''a''))" by simp
  have 2: "\<exists>dangerous \<in> set dangerousPatterns. Contains ''x(.*)*y'' dangerous"
    by (simp add: dangerousPatterns_def)
  have 3: "5 < CountByte ''a+b+c+d*e*f*'' (CHR ''+'') + CountByte ''a+b+c+d*e*f*'' (CHR ''*'')"
    by (simp add: CountByte_def)
  show ?thesis
    using validateRegexComplexity_guard [of "replicate 201 (CHR ''a'')"]
      validateRegexComplexity_guard [of "''x(.*)*y''"]
      validateRegexComplexity_guard [of "''a+b+c+d*e*f*''"] 1 2 3
    by blast
qed

subsection \<open>Lengths below 1\<close>

text \<open>
  Claim C10. When the length is 0 or negative the generator sends nothing, whatever the
  alphabet, pattern, filter and mode (\<open>GenerateDomains\<close> either ends the process before
  any candidate or yields the empty stream, and yields the empty stream for the three
  valid patterns without a filter), while \<open>CalculateDomainsCount 0 pattern\<close> is 1 for
  the three valid patterns: at length 0 the number generated and the base count differ.
\<close>

theorem generator_empty_at_length_zero:
  "(len \<le> 0 \<longrightarrow> generateCombinationsIterative charset len suffix regex regexMode = []) \<and>
   (len \<le> 0 \<longrightarrow>
      (case GenerateDomains compile len suffix pattern regexFilter regexMode of
         Inl exit \<Rightarrow> True | Inr xs \<Rightarrow> xs = [])) \<and>
   (len \<le> 0 \<and> (pattern = ''d'' \<or> pattern = ''D'' \<or> pattern = ''a'') \<longrightarrow>
      GenerateDomains compile len suffix pattern [] regexMode = Inr []) \<and>
   (pattern = ''d'' \<or> pattern = ''D'' \<or> pattern = ''a'' \<longrightarrow>
      CalculateDomainsCount 0 pattern = 1 \<and>
      int (length (generateCombinationsIterative (alphabet pattern) 0 suffix regex regexMode)) \<noteq>
        CalculateDomainsCount 0 pattern)"
proof -
  have g: "generateCombinationsIterative cs len suffix rx regexMode = []" if "len \<le> 0" for cs rx
    using that by (simp add: generateCombinationsIterative_def)
  have c: "CalculateDomainsCount 0 pattern = 1"
    if "pattern = ''d'' \<or> pattern = ''D'' \<or> pattern = ''a''"
    using that by (auto simp: CalculateDomainsCount_def totalLoop_nonpos)
  show ?thesis
    apply (intro conjI impI)
    subgoal by (rule g)
    subgoal by (simp add: GenerateDomains_def g split: sum.splits option.splits)
    subgoal by (auto simp: GenerateDomains_def g)
    subgoal by (rule c)
    subgoal using c g [of _ _] by (simp add: generateCombinationsIterative_def)
    done
qed

text \<open>Claim C10 at length 0 and pattern \<open>D\<close>.\<close>

theorem generator_empty_at_length_zero_witness:
  "generateCombinationsIterative letters 0 ''.li'' None RegexModeFull = [] \<and>
   GenerateDomains (\<lambda>f. Inl []) 0 ''.li'' ''D'' [] RegexModeFull = Inr [] \<and>
   CalculateDomainsCount 0 ''D'' = 1"
proof -
  note t = generator_empty_at_length_zero
    [of 0 letters "''.li''" None RegexModeFull "\<lambda>f. Inl []" "''D''" "[]"]
  have a: "generateCombinationsIterative letters 0 ''.li'' None RegexModeFull = []"
    using t [THEN conjunct1] by simp
  have b: "GenerateDomains (\<lambda>f. Inl []) 0 ''.li'' ''D'' [] RegexModeFull = Inr []"
    using t [THEN conjunct2, THEN conjunct2, THEN conjunct1] by simp
  have c: "CalculateDomainsCount 0 ''D'' = 1"
    using t [THEN conjunct2, THEN conjunct2, THEN conjunct2] by simp
  show ?thesis using a b c by simp
qed

section \<open>Properties of the checker\<close>

subsection \<open>Signatures and the WHOIS loop\<close>

lemma signatureFlag_step:
  "signatureFlag sig (r, d, w) =
     (r \<or> sig \<in> set registrationSignatureTags, d \<or> sig \<in> set dnsSignatureTags,
      w \<or> sig = ''WHOIS'')"
  by (auto simp: signatureFlag_def registrationSignatureTags_def dnsSignatureTags_def)

lemma fold_signatureFlag:
  "fold signatureFlag sigs (r, d, w) =
     (r \<or> (\<exists>sig \<in> set sigs. sig \<in> set registrationSignatureTags),
      d \<or> (\<exists>sig \<in> set sigs. sig \<in> set dnsSignatureTags),
      w \<or> ''WHOIS'' \<in> set sigs)"
proof (induction sigs arbitrary: r d w)
  case Nil
  then show ?case by simp
next
  case (Cons s sigs)
  have "fold signatureFlag (s # sigs) (r, d, w) =
      fold signatureFlag sigs
        (r \<or> s \<in> set registrationSignatureTags, d \<or> s \<in> set dnsSignatureTags,
         w \<or> s = ''WHOIS'')"
    by (simp add: signatureFlag_step)
  also have "\<dots> =
      ((r \<or> s \<in> set registrationSignatureTags) \<or>
         (\<exists>sig \<in> set sigs. sig \<in> set registrationSignatureTags),
       (d \<or> s \<in> set dnsSignatureTags) \<or> (\<exists>sig \<in> set sigs. sig \<in> set dnsSignatureTags),
       (w \<or> s = ''WHOIS'') \<or> ''WHOIS'' \<in> set sigs)"
    by (rule Cons.IH)
  also have "\<dots> =
      (r \<or> (\<exists>sig \<in> set (s # sigs). sig \<in> set registrationSignatureTags),
       d \<or> (\<exists>sig \<in> set (s # sigs). sig \<in> set dnsSignatureTags),
       w \<or> ''WHOIS'' \<in> set (s # sigs))"
    by auto
  finally show ?case .
qed

lemma CheckDomainSignatures_no_error:
  "snd (CheckDomainSignatures unicode globalConfig domain probes) = None"
  by (simp add: CheckDomainSignatures_def Let_def)

lemma CheckDomainAvailability_unfold:
  "CheckDomainAvailability unicode globalConfig domain probes whois st =
     (let signatures = fst (CheckDomainSignatures unicode globalConfig domain probes) in
      if ''RESERVED'' \<in> set signatures then ((False, None), st)
      else if \<exists>sig \<in> set signatures. sig \<in> set registrationSignatureTags
        then ((False, None), st)
      else availabilityWhoisLoop unicode globalConfig domain
        (\<exists>sig \<in> set signatures. sig \<in> set dnsSignatureTags) whois 5 0 st)"
proof -
  obtain signatures where
    s: "CheckDomainSignatures unicode globalConfig domain probes = (signatures, None)"
    using CheckDomainSignatures_no_error [of unicode globalConfig domain probes]
    by (cases "CheckDomainSignatures unicode globalConfig domain probes") auto
  show ?thesis
    by (simp add: CheckDomainAvailability_def s fold_signatureFlag Let_def)
qed

lemma loop_retry:
  "i < 4 \<Longrightarrow> retriedReply unicode (whois i) \<Longrightarrow>
   availabilityWhoisLoop unicode cfg d h whois 5 i st =
     availabilityWhoisLoop unicode cfg d h whois 5 (i + 1) st"
  by (subst availabilityWhoisLoop.simps)
    (auto simp: retriedReply_def Let_def split: whois_reply.splits)

lemma loop_skip:
  "k < 5 \<Longrightarrow> \<forall>j < k. retriedReply unicode (whois j) \<Longrightarrow>
   availabilityWhoisLoop unicode cfg d h whois 5 0 st =
     availabilityWhoisLoop unicode cfg d h whois 5 k st"
proof (induction k)
  case 0
  then show ?case by simp
next
  case (Suc k)
  then have "availabilityWhoisLoop unicode cfg d h whois 5 0 st =
      availabilityWhoisLoop unicode cfg d h whois 5 k st"
    by simp
  also have "\<dots> = availabilityWhoisLoop unicode cfg d h whois 5 (k + 1) st"
    using Suc.prems by (intro loop_retry) auto
  finally show ?case by simp
qed

lemma loop_response:
  "i < 5 \<Longrightarrow> whois i = WhoisResult r \<Longrightarrow> \<not> isRateLimit (ToLower unicode r) \<Longrightarrow>
   availabilityWhoisLoop unicode cfg d h whois 5 i st =
     (if firstIndicator (ToLower unicode r) availableIndicators \<noteq> None then ((True, None), st)
      else if firstIndicator (ToLower unicode r) enhancedRegisteredIndicators \<noteq> None
        then ((False, None), st)
      else
        (case firstIndicator (ToLower unicode r) specialStatusIndicators of
           Some indicator \<Rightarrow>
             ((False, None),
              addToSpecialStatus d (ToUpper unicode (TrimPrefix indicator ''status: '')) st)
         | None \<Rightarrow> ((True, None), st)))"
  by (subst availabilityWhoisLoop.simps) (simp add: Let_def)




lemma checkDNSRecords_tags:
  "x \<in> set (fst (checkDNSRecords domain probes)) \<Longrightarrow> x \<in> set dnsSignatureTags"
  unfolding checkDNSRecords_def Let_def dnsSignatureTags_def
  by (auto split: sum.split_asm if_split_asm)

lemma whoisSignatures_tags:
  "x \<in> set (whoisSignatures unicode r) \<Longrightarrow> x = ''WHOIS'' \<or> x = ''RESERVED''"
  unfolding whoisSignatures_def Let_def
  by (auto split: if_split_asm)

lemma checkDNSRecords_no_error: "snd (checkDNSRecords domain probes) = None"
  by (simp add: checkDNSRecords_def Let_def)

lemma sslSignatures_tags: "x \<in> set (sslSignatures dial) \<Longrightarrow> x = ''SSL''"
  by (cases dial) (simp_all add: sslSignatures_def split: if_split_asm)

lemma CheckDomainSignatures_parts:
  "fst (CheckDomainSignatures unicode globalConfig domain probes) =
     (if methodEnabled globalConfig DNSCheck then fst (checkDNSRecords domain probes) else []) @
     (if methodEnabled globalConfig WHOISCheck
      then whoisSignatures unicode (signaturesWhoisLoop (Whois probes) 3 0) else []) @
     (if methodEnabled globalConfig SSLCheck then sslSignatures (TLSDial probes) else [])"
proof -
  have "(case checkDNSRecords domain probes of
           (dnsSignatures, None) \<Rightarrow> dnsSignatures
         | (dnsSignatures, Some err) \<Rightarrow> []) = fst (checkDNSRecords domain probes)"
    using checkDNSRecords_no_error [of domain probes]
    by (cases "checkDNSRecords domain probes") simp
  then show ?thesis by (simp add: CheckDomainSignatures_def Let_def)
qed

lemma CheckDomainSignatures_tags:
  assumes "x \<in> set (fst (CheckDomainSignatures unicode globalConfig domain probes))"
  shows "x = ''RESERVED'' \<or> x \<in> set registrationSignatureTags"
proof -
  let ?a = "fst (checkDNSRecords domain probes)"
  let ?b = "whoisSignatures unicode (signaturesWhoisLoop (Whois probes) 3 0)"
  let ?c = "sslSignatures (TLSDial probes)"
  have "set (fst (CheckDomainSignatures unicode globalConfig domain probes)) \<subseteq>
      set ?a \<union> set ?b \<union> set ?c"
    by (auto simp: CheckDomainSignatures_parts)
  with assms have "x \<in> set ?a \<or> x \<in> set ?b \<or> x \<in> set ?c" by blast
  then consider "x \<in> set ?a" | "x \<in> set ?b" | "x \<in> set ?c" by blast
  then show ?thesis
  proof cases
    case 1
    then show ?thesis
      by (simp add: checkDNSRecords_tags registrationSignatureTags_def)
  next
    case 2
    then show ?thesis
      using whoisSignatures_tags [of x] by (auto simp: registrationSignatureTags_def)
  next
    case 3
    then show ?thesis
      using sslSignatures_tags [of x] by (auto simp: registrationSignatureTags_def)
  qed
qed

lemma no_signature_iff:
  "fst (CheckDomainSignatures unicode globalConfig domain probes) = [] \<longleftrightarrow>
     ''RESERVED'' \<notin> set (fst (CheckDomainSignatures unicode globalConfig domain probes)) \<and>
     \<not> (\<exists>sig \<in> set (fst (CheckDomainSignatures unicode globalConfig domain probes)).
          sig \<in> set registrationSignatureTags)"
proof (cases "fst (CheckDomainSignatures unicode globalConfig domain probes)")
  case Nil
  then show ?thesis by simp
next
  case (Cons x xs)
  then have "x \<in> set (fst (CheckDomainSignatures unicode globalConfig domain probes))" by simp
  then have "x = ''RESERVED'' \<or> x \<in> set registrationSignatureTags"
    by (rule CheckDomainSignatures_tags)
  then show ?thesis using Cons by auto
qed


subsection \<open>The verdict from the signatures\<close>

text \<open>
  Claim C1. \<open>CheckDomainAvailability\<close> decides from the signatures that
  \<open>CheckDomainSignatures\<close> gathered: when \<open>RESERVED\<close> is among them the name is not
  available; when one of \<open>DNS_NS\<close>, \<open>DNS_A\<close>, \<open>DNS_MX\<close>, \<open>DNS_TXT\<close>, \<open>DNS_CNAME\<close>, \<open>WHOIS\<close>
  or \<open>SSL\<close> is among them the name is not available; and when none of the eight is,
  and WHOIS is reached at some attempt \<open>k\<close> of the five (every earlier attempt having
  been retried) with a response that is not rate-limited and holds no indicator of any
  table, the name is available. In all three cases the error is \<open>nil\<close> and the
  special-status list is left as it was. The phrases and indicators are looked up in
  \<open>strings.ToLower\<close> of the response, as the code does; the statement holds whatever the
  case mapping \<open>unicode\<close> of non-ASCII text is.
\<close>

theorem availability_from_signatures:
  "(''RESERVED'' \<in> set (fst (CheckDomainSignatures unicode globalConfig domain probes)) \<longrightarrow>
      CheckDomainAvailability unicode globalConfig domain probes whois specialStatusDomains =
        ((False, None), specialStatusDomains)) \<and>
   ((\<exists>sig \<in> set (fst (CheckDomainSignatures unicode globalConfig domain probes)).
        sig \<in> set registrationSignatureTags) \<longrightarrow>
      CheckDomainAvailability unicode globalConfig domain probes whois specialStatusDomains =
        ((False, None), specialStatusDomains)) \<and>
   (''RESERVED'' \<notin> set (fst (CheckDomainSignatures unicode globalConfig domain probes)) \<and>
    \<not> (\<exists>sig \<in> set (fst (CheckDomainSignatures unicode globalConfig domain probes)).
          sig \<in> set registrationSignatureTags) \<and>
    k < 5 \<and> (\<forall>j < k. retriedReply unicode (whois j)) \<and> silentReply unicode (whois k) \<longrightarrow>
      CheckDomainAvailability unicode globalConfig domain probes whois specialStatusDomains =
        ((True, None), specialStatusDomains))"
proof (intro conjI impI)
  assume "''RESERVED'' \<in> set (fst (CheckDomainSignatures unicode globalConfig domain probes))"
  then show "CheckDomainAvailability unicode globalConfig domain probes whois specialStatusDomains =
      ((False, None), specialStatusDomains)"
    by (simp add: CheckDomainAvailability_unfold)
next
  assume "\<exists>sig \<in> set (fst (CheckDomainSignatures unicode globalConfig domain probes)).
      sig \<in> set registrationSignatureTags"
  then show "CheckDomainAvailability unicode globalConfig domain probes whois specialStatusDomains =
      ((False, None), specialStatusDomains)"
    by (simp add: CheckDomainAvailability_unfold Let_def)
next
  let ?sigs = "fst (CheckDomainSignatures unicode globalConfig domain probes)"
  let ?h = "\<exists>sig \<in> set ?sigs. sig \<in> set dnsSignatureTags"
  assume a: "''RESERVED'' \<notin> set ?sigs \<and>
    \<not> (\<exists>sig \<in> set ?sigs. sig \<in> set registrationSignatureTags) \<and>
    k < 5 \<and> (\<forall>j < k. retriedReply unicode (whois j)) \<and> silentReply unicode (whois k)"
  then obtain r where r: "whois k = WhoisResult r" "\<not> isRateLimit (ToLower unicode r)"
    "matchesNoIndicator (ToLower unicode r)"
    by (auto simp: silentReply_def split: whois_reply.splits)
  have "CheckDomainAvailability unicode globalConfig domain probes whois specialStatusDomains =
      availabilityWhoisLoop unicode globalConfig domain ?h whois 5 0 specialStatusDomains"
    using a by (simp add: CheckDomainAvailability_unfold Let_def)
  also have "\<dots> = availabilityWhoisLoop unicode globalConfig domain ?h whois 5 k specialStatusDomains"
    using a by (intro loop_skip) auto
  also have "\<dots> = ((True, None), specialStatusDomains)"
    using a r by (simp add: loop_response matchesNoIndicator_def)
  finally show "CheckDomainAvailability unicode globalConfig domain probes whois specialStatusDomains =
      ((True, None), specialStatusDomains)" .
qed

text \<open>The sample inputs, evaluated.\<close>

lemma sample_reserved:
  "fst (CheckDomainSignatures unicode None ''ab.li''
     (quietProbes\<lparr>Whois := (\<lambda>i. WhoisResult ''Status: Reserved'')\<rparr>)) = [''RESERVED'']"
  by code_simp

lemma sample_address:
  "fst (CheckDomainSignatures unicode None ''ab.li'' (quietProbes\<lparr>LookupIP := Inr 1\<rparr>)) = [''DNS_A'']"
  by code_simp

lemma sample_quiet: "fst (CheckDomainSignatures unicode globalConfig ''ab.li'' quietProbes) = []"
  by (cases globalConfig)
    (simp_all add: CheckDomainSignatures_def methodEnabled_def checkDNSRecords_def
      quietProbes_def Let_def signaturesWhoisLoop.simps whoisSignatures_def sslSignatures_def)

lemma sample_silent: "silentReply unicode (WhoisResult ''% no information'')"
  by code_simp


text \<open>
  Claim C1 at three inputs: a WHOIS response with a reserved status, a name with an
  address record, and a name no probe sees whose second WHOIS attempt answers without
  any indicator.
\<close>

theorem availability_from_signatures_witness:
  "CheckDomainAvailability sampleUnicode None ''ab.li''
     (quietProbes\<lparr>Whois := (\<lambda>i. WhoisResult ''Status: Reserved'')\<rparr>)
     (\<lambda>i. WhoisResult ''% no information'') [] = ((False, None), []) \<and>
   CheckDomainAvailability sampleUnicode None ''ab.li'' (quietProbes\<lparr>LookupIP := Inr 1\<rparr>)
     (\<lambda>i. WhoisResult ''% no information'') [] = ((False, None), []) \<and>
   CheckDomainAvailability sampleUnicode None ''ab.li'' quietProbes
     (\<lambda>i. if i = 0 then WhoisError ''i/o timeout'' else WhoisResult ''% no information'') [] =
     ((True, None), [])"
proof -
  let ?w = "\<lambda>i::nat. WhoisResult ''% no information''"
  let ?v = "\<lambda>i::nat. if i = 0 then WhoisError ''i/o timeout''
    else WhoisResult ''% no information''"
  let ?r = "quietProbes\<lparr>Whois := (\<lambda>i. WhoisResult ''Status: Reserved'')\<rparr>"
  let ?a = "quietProbes\<lparr>LookupIP := Inr 1\<rparr>"
  have 1: "''RESERVED'' \<in> set (fst (CheckDomainSignatures sampleUnicode None ''ab.li'' ?r))"
    by (simp add: sample_reserved)
  have 2: "\<exists>sig \<in> set (fst (CheckDomainSignatures sampleUnicode None ''ab.li'' ?a)).
      sig \<in> set registrationSignatureTags"
    by (subst sample_address) (simp add: registrationSignatureTags_def dnsSignatureTags_def)
  have 3:
    "''RESERVED'' \<notin> set (fst (CheckDomainSignatures sampleUnicode None ''ab.li'' quietProbes)) \<and>
     \<not> (\<exists>sig \<in> set (fst (CheckDomainSignatures sampleUnicode None ''ab.li'' quietProbes)).
           sig \<in> set registrationSignatureTags) \<and>
     (1::nat) < 5 \<and> (\<forall>j < 1. retriedReply sampleUnicode (?v j)) \<and>
     silentReply sampleUnicode (?v 1)"
    using sample_silent by (simp add: sample_quiet retriedReply_def)
  note t1 = availability_from_signatures [of sampleUnicode None "''ab.li''" ?r ?w "[]" 1,
      THEN conjunct1, THEN mp, OF 1]
  note t2 = availability_from_signatures [of sampleUnicode None "''ab.li''" ?a ?w "[]" 1,
      THEN conjunct2, THEN conjunct1, THEN mp, OF 2]
  note t3 = availability_from_signatures [of sampleUnicode None "''ab.li''" quietProbes ?v
      "[]" 1, THEN conjunct2, THEN conjunct2, THEN mp, OF 3]
  show ?thesis using t1 t2 t3 by simp
qed

subsection \<open>WHOIS rate-limited on every attempt\<close>





subsection \<open>Classification of a WHOIS response\<close>

text \<open>
  Claim C3, as the code has it. The available indicators are matched first against the
  lowercased response and decide alone: a response that holds one adds neither \<open>WHOIS\<close>
  nor \<open>RESERVED\<close> in \<open>CheckDomainSignatures\<close>, and in the loop of
  \<open>CheckDomainAvailability\<close> a response that is not rate-limited and holds one returns
  available at once, whatever other indicators it holds. Without an available
  indicator, \<open>CheckDomainSignatures\<close> tests the registered and the reserved table
  independently (\<open>WHOIS\<close> and then \<open>RESERVED\<close>, both when both match), while the loop has
  no reserved table: it tests the registered table (not available), then the
  special-status table (not available, and one record with the matched status), the
  first match deciding, and returns available when nothing matches.
\<close>

theorem whois_response_classification:
  "(whoisResult \<noteq> [] \<and> firstIndicator (ToLower unicode whoisResult) availableIndicators \<noteq> None \<longrightarrow>
      whoisSignatures unicode whoisResult = []) \<and>
   (whoisResult \<noteq> [] \<and> firstIndicator (ToLower unicode whoisResult) availableIndicators = None \<longrightarrow>
      whoisSignatures unicode whoisResult =
        (if firstIndicator (ToLower unicode whoisResult) registeredIndicators \<noteq> None
         then [''WHOIS''] else []) @
        (if firstIndicator (ToLower unicode whoisResult) reservedIndicators \<noteq> None
         then [''RESERVED''] else [])) \<and>
   (i < 5 \<and> whois i = WhoisResult r \<and> \<not> isRateLimit (ToLower unicode r) \<and>
    firstIndicator (ToLower unicode r) availableIndicators \<noteq> None \<longrightarrow>
      availabilityWhoisLoop unicode globalConfig domain hasDNSSignatures whois 5 i
        specialStatusDomains = ((True, None), specialStatusDomains)) \<and>
   (i < 5 \<and> whois i = WhoisResult r \<and> \<not> isRateLimit (ToLower unicode r) \<and>
    firstIndicator (ToLower unicode r) availableIndicators = None \<longrightarrow>
      availabilityWhoisLoop unicode globalConfig domain hasDNSSignatures whois 5 i
        specialStatusDomains =
        (if firstIndicator (ToLower unicode r) enhancedRegisteredIndicators \<noteq> None
         then ((False, None), specialStatusDomains)
         else
           (case firstIndicator (ToLower unicode r) specialStatusIndicators of
              Some indicator \<Rightarrow>
                ((False, None),
                 specialStatusDomains @
                   [\<lparr>Domain_s = domain,
                     Status = ToUpper unicode (TrimPrefix indicator ''status: ''),
                     Reason = ''WHOIS status: '' @
                       ToUpper unicode (TrimPrefix indicator ''status: '')\<rparr>])
            | None \<Rightarrow> ((True, None), specialStatusDomains)))) \<and>
   (fst (CheckDomainSignatures unicode globalConfig domain probes) = [] \<and>
    whois 0 = WhoisResult r \<and> \<not> isRateLimit (ToLower unicode r) \<and>
    firstIndicator (ToLower unicode r) availableIndicators \<noteq> None \<longrightarrow>
      CheckDomainAvailability unicode globalConfig domain probes whois specialStatusDomains =
        ((True, None), specialStatusDomains))"
proof (intro conjI impI)
  assume "whoisResult \<noteq> [] \<and>
    firstIndicator (ToLower unicode whoisResult) availableIndicators \<noteq> None"
  then show "whoisSignatures unicode whoisResult = []"
    by (simp add: whoisSignatures_def Let_def)
next
  assume "whoisResult \<noteq> [] \<and>
    firstIndicator (ToLower unicode whoisResult) availableIndicators = None"
  then show "whoisSignatures unicode whoisResult =
      (if firstIndicator (ToLower unicode whoisResult) registeredIndicators \<noteq> None
       then [''WHOIS''] else []) @
      (if firstIndicator (ToLower unicode whoisResult) reservedIndicators \<noteq> None
       then [''RESERVED''] else [])"
    by (simp add: whoisSignatures_def Let_def)
next
  assume "i < 5 \<and> whois i = WhoisResult r \<and> \<not> isRateLimit (ToLower unicode r) \<and>
    firstIndicator (ToLower unicode r) availableIndicators \<noteq> None"
  then show "availabilityWhoisLoop unicode globalConfig domain hasDNSSignatures whois 5 i
      specialStatusDomains = ((True, None), specialStatusDomains)"
    by (simp add: loop_response)
next
  assume "i < 5 \<and> whois i = WhoisResult r \<and> \<not> isRateLimit (ToLower unicode r) \<and>
    firstIndicator (ToLower unicode r) availableIndicators = None"
  then show "availabilityWhoisLoop unicode globalConfig domain hasDNSSignatures whois 5 i
      specialStatusDomains =
      (if firstIndicator (ToLower unicode r) enhancedRegisteredIndicators \<noteq> None
       then ((False, None), specialStatusDomains)
       else
         (case firstIndicator (ToLower unicode r) specialStatusIndicators of
            Some indicator \<Rightarrow>
              ((False, None),
               specialStatusDomains @
                 [\<lparr>Domain_s = domain,
                   Status = ToUpper unicode (TrimPrefix indicator ''status: ''),
                   Reason = ''WHOIS status: '' @
                     ToUpper unicode (TrimPrefix indicator ''status: '')\<rparr>])
          | None \<Rightarrow> ((True, None), specialStatusDomains)))"
    by (simp add: loop_response addToSpecialStatus_def split: option.splits)
next
  assume a: "fst (CheckDomainSignatures unicode globalConfig domain probes) = [] \<and>
    whois 0 = WhoisResult r \<and> \<not> isRateLimit (ToLower unicode r) \<and>
    firstIndicator (ToLower unicode r) availableIndicators \<noteq> None"
  then have "CheckDomainAvailability unicode globalConfig domain probes whois specialStatusDomains =
      availabilityWhoisLoop unicode globalConfig domain False whois 5 0 specialStatusDomains"
    by (simp add: CheckDomainAvailability_unfold)
  also have "\<dots> = ((True, None), specialStatusDomains)"
    using a by (simp add: loop_response)
  finally show "CheckDomainAvailability unicode globalConfig domain probes whois
      specialStatusDomains = ((True, None), specialStatusDomains)" .
qed

text \<open>Two sample responses, evaluated.\<close>

lemma sample_available_registered:
  "firstIndicator (ToLower unicode ''No match for domain. Registrar: none'') availableIndicators \<noteq> None"
  "firstIndicator (ToLower unicode ''No match for domain. Registrar: none'')
     enhancedRegisteredIndicators \<noteq> None"
  "\<not> isRateLimit (ToLower unicode ''No match for domain. Registrar: none'')"
  by code_simp+

lemma sample_registered_reserved:
  "firstIndicator (ToLower unicode ''Registrar: X Status: reserved'') availableIndicators = None"
  "firstIndicator (ToLower unicode ''Registrar: X Status: reserved'') registeredIndicators \<noteq> None"
  "firstIndicator (ToLower unicode ''Registrar: X Status: reserved'') reservedIndicators \<noteq> None"
  by code_simp+

text \<open>
  Claim C3 as the code has it, at a response that holds an available and a registered
  indicator, and at a response that holds a registered and a reserved indicator.
\<close>

theorem whois_response_classification_witness:
  "whoisSignatures sampleUnicode ''No match for domain. Registrar: none'' = [] \<and>
   whoisSignatures sampleUnicode ''Registrar: X Status: reserved'' = [''WHOIS'', ''RESERVED''] \<and>
   CheckDomainAvailability sampleUnicode None ''ab.li'' quietProbes
     (\<lambda>i. WhoisResult ''No match for domain. Registrar: none'') [] = ((True, None), [])"
proof -
  let ?t = "''No match for domain. Registrar: none''"
  let ?u = "''Registrar: X Status: reserved''"
  let ?w = "\<lambda>i::nat. WhoisResult ?t"
  have 1: "?t \<noteq> [] \<and> firstIndicator (ToLower sampleUnicode ?t) availableIndicators \<noteq> None"
    using sample_available_registered(1) by simp
  have 2: "?u \<noteq> [] \<and> firstIndicator (ToLower sampleUnicode ?u) availableIndicators = None"
    using sample_registered_reserved(1) by simp
  have 3: "fst (CheckDomainSignatures sampleUnicode None ''ab.li'' quietProbes) = [] \<and>
      ?w 0 = WhoisResult ?t \<and> \<not> isRateLimit (ToLower sampleUnicode ?t) \<and>
      firstIndicator (ToLower sampleUnicode ?t) availableIndicators \<noteq> None"
    using sample_available_registered(1,3) by (simp add: sample_quiet)
  note t1 = whois_response_classification [where whoisResult = ?t
      and unicode = sampleUnicode, THEN conjunct1, THEN mp, OF 1]
  note t2 = whois_response_classification [where whoisResult = ?u
      and unicode = sampleUnicode, THEN conjunct2, THEN conjunct1, THEN mp, OF 2]
  note t3 = whois_response_classification [where unicode = sampleUnicode and whois = ?w
      and r = ?t and globalConfig = None and domain = "''ab.li''"
      and specialStatusDomains = "[]" and probes = quietProbes,
      THEN conjunct2, THEN conjunct2, THEN conjunct2, THEN conjunct2, THEN mp, OF 3]
  have u: "whoisSignatures sampleUnicode ?u = [''WHOIS'', ''RESERVED'']"
    using t2 sample_registered_reserved(2,3) by simp
  show ?thesis using t1 u t3 by simp
qed

text \<open>
  Claim C3 as it is worded (first match in the order available, reserved, registered,
  special status) fails at two responses. For a response with a registered and a
  reserved indicator the first match is reserved, which gives \<open>RESERVED\<close> alone, while
  \<open>CheckDomainSignatures\<close> adds \<open>WHOIS\<close> and \<open>RESERVED\<close>. For a response whose only
  indicator is the reserved \<open>this domain is reserved\<close> the first match is reserved,
  while the loop of \<open>CheckDomainAvailability\<close> returns available.
\<close>

theorem whois_precedence_counterexample:
  "whoisSignatures sampleUnicode ''Registrar: X Status: reserved'' = [''WHOIS'', ''RESERVED''] \<and>
   spec_whoisSignatures sampleUnicode ''Registrar: X Status: reserved'' = [''RESERVED''] \<and>
   spec_classifyWhois sampleUnicode ''This domain is reserved'' = ClassReserved \<and>
   \<not> isRateLimit (ToLower sampleUnicode ''This domain is reserved'') \<and>
   availabilityWhoisLoop sampleUnicode None ''ab.li'' False (\<lambda>i. WhoisResult ''This domain is reserved'')
     5 0 [] = ((True, None), [])"
  by code_simp

subsection \<open>Redemption period\<close>

lemma redemption_lower:
  "map lowerByte ''Status: REDEMPTIONPERIOD'' = ''status: redemptionperiod''"
  by code_simp

lemma redemption_reason:
  "ToUpper unicode (TrimPrefix ''status: redemptionperiod'' ''status: '') = ''REDEMPTIONPERIOD''"
  by code_simp

lemma redemption_first:
  assumes "Contains result ''status: redemptionperiod''"
  shows "firstIndicator result specialStatusIndicators = Some ''status: redemptionperiod''"
  using assms by (simp add: firstIndicator_def specialStatusIndicators_def)

lemma Worker_single:
  "Worker unicode globalConfig [(domainName, answers)] st =
     ([\<lparr>Domain_r = domainName,
        Available = fst (fst (CheckDomainAvailability unicode globalConfig domainName
          (availabilityProbes answers) (availabilityWhois answers) st)),
        Error = snd (fst (CheckDomainAvailability unicode globalConfig domainName
          (availabilityProbes answers) (availabilityWhois answers) st)),
        Signatures = fst (CheckDomainSignatures unicode globalConfig domainName
          (signatureProbes answers)),
        SpecialStatus = []\<rparr>],
      snd (CheckDomainAvailability unicode globalConfig domainName
          (availabilityProbes answers) (availabilityWhois answers) st))"
  by (simp add: Let_def split: prod.splits)

text \<open>
  Claim C7, as the code has it. Take a candidate with no signature whose WHOIS loop
  reaches, at some attempt \<open>k\<close> of the five (every earlier attempt having been
  retried), a response whose lowercased text contains \<open>status: redemptionperiod\<close> (as
  does every ASCII response that contains \<open>Status: REDEMPTIONPERIOD\<close>), is not
  rate-limited and holds no available and no registered indicator, the phrases and
  indicators being looked up in \<open>strings.ToLower\<close> of the response, whatever the case
  mapping \<open>unicode\<close> of non-ASCII text is. Then \<open>CheckDomainAvailability\<close>
  returns not available with a \<open>nil\<close> error and appends exactly one record for the
  candidate, with status \<open>REDEMPTIONPERIOD\<close>, to the special-status list. The result
  the worker sends has \<open>Available\<close> false and an empty \<open>SpecialStatus\<close> field: the reason
  is recorded in the list only.
\<close>

theorem redemption_period_recorded:
  assumes
    "fst (CheckDomainSignatures unicode globalConfig domain (availabilityProbes answers)) = []"
    and "k < 5" and "\<forall>j < k. retriedReply unicode (availabilityWhois answers j)"
    and "availabilityWhois answers k = WhoisResult r"
    and "Contains (ToLower unicode r) ''status: redemptionperiod'' \<or>
         isASCII r \<and> Contains r ''Status: REDEMPTIONPERIOD''"
    and "\<not> isRateLimit (ToLower unicode r)"
    and "firstIndicator (ToLower unicode r) availableIndicators = None"
    and "firstIndicator (ToLower unicode r) enhancedRegisteredIndicators = None"
  shows
    "CheckDomainAvailability unicode globalConfig domain (availabilityProbes answers)
       (availabilityWhois answers) specialStatusDomains =
       ((False, None),
        specialStatusDomains @
          [\<lparr>Domain_s = domain, Status = ''REDEMPTIONPERIOD'',
            Reason = ''WHOIS status: REDEMPTIONPERIOD''\<rparr>]) \<and>
     Worker unicode globalConfig [(domain, answers)] specialStatusDomains =
       ([\<lparr>Domain_r = domain, Available = False, Error = None,
          Signatures =
            fst (CheckDomainSignatures unicode globalConfig domain (signatureProbes answers)),
          SpecialStatus = []\<rparr>],
        specialStatusDomains @
          [\<lparr>Domain_s = domain, Status = ''REDEMPTIONPERIOD'',
            Reason = ''WHOIS status: REDEMPTIONPERIOD''\<rparr>])"
proof -
  let ?w = "availabilityWhois answers"
  let ?rec = "\<lparr>Domain_s = domain, Status = ''REDEMPTIONPERIOD'',
    Reason = ''WHOIS status: REDEMPTIONPERIOD''\<rparr>"
  have c: "Contains (ToLower unicode r) ''status: redemptionperiod''"
    using assms(5)
  proof
    assume "Contains (ToLower unicode r) ''status: redemptionperiod''"
    then show ?thesis .
  next
    assume "isASCII r \<and> Contains r ''Status: REDEMPTIONPERIOD''"
    then have "Contains (ToLower unicode r) (map lowerByte ''Status: REDEMPTIONPERIOD'')"
      using Contains_ToLower by blast
    then show ?thesis by (simp only: redemption_lower)
  qed
  have f: "firstIndicator (ToLower unicode r) specialStatusIndicators =
      Some ''status: redemptionperiod''"
    using c by (rule redemption_first)
  have "CheckDomainAvailability unicode globalConfig domain (availabilityProbes answers) ?w
      specialStatusDomains =
      availabilityWhoisLoop unicode globalConfig domain False ?w 5 0 specialStatusDomains"
    by (simp add: CheckDomainAvailability_unfold assms(1))
  also have "\<dots> =
      availabilityWhoisLoop unicode globalConfig domain False ?w 5 k specialStatusDomains"
    using assms(2,3) by (rule loop_skip)
  also have "\<dots> = ((False, None), specialStatusDomains @ [?rec])"
    using assms(2,4,6,7,8) f
    by (simp add: loop_response addToSpecialStatus_def redemption_reason)
  finally have a:
    "CheckDomainAvailability unicode globalConfig domain (availabilityProbes answers) ?w
      specialStatusDomains = ((False, None), specialStatusDomains @ [?rec])" .
  show ?thesis using a by (simp only: Worker_single fst_conv snd_conv simp_thms)
qed

text \<open>The sample response and the sample job, evaluated.\<close>

lemma sample_redemption:
  "Contains (ToLower unicode ''Status: REDEMPTIONPERIOD'') ''status: redemptionperiod'' \<or>
   isASCII ''Status: REDEMPTIONPERIOD'' \<and>
   Contains ''Status: REDEMPTIONPERIOD'' ''Status: REDEMPTIONPERIOD''"
  "\<not> isRateLimit (ToLower unicode ''Status: REDEMPTIONPERIOD'')"
  "firstIndicator (ToLower unicode ''Status: REDEMPTIONPERIOD'') availableIndicators = None"
  "firstIndicator (ToLower unicode ''Status: REDEMPTIONPERIOD'') enhancedRegisteredIndicators =
     None"
  by code_simp+

lemma redemptionJob_fields:
  "availabilityProbes redemptionJob = redemptionProbes"
  "signatureProbes redemptionJob = redemptionProbes"
  "availabilityWhois redemptionJob = (\<lambda>i. WhoisResult ''Status: REDEMPTIONPERIOD'')"
  by (simp_all add: redemptionJob_def)

lemma sample_redemption_probes:
  "fst (CheckDomainSignatures unicode None ''ab.li'' redemptionProbes) = []"
  by code_simp

text \<open>Claim C7 as the code has it, at a name no probe sees but WHOIS.\<close>

theorem redemption_period_recorded_witness:
  "CheckDomainAvailability sampleUnicode None ''ab.li'' redemptionProbes
     (\<lambda>i. WhoisResult ''Status: REDEMPTIONPERIOD'') [] =
     ((False, None),
      [\<lparr>Domain_s = ''ab.li'', Status = ''REDEMPTIONPERIOD'',
        Reason = ''WHOIS status: REDEMPTIONPERIOD''\<rparr>]) \<and>
   Worker sampleUnicode None [(''ab.li'', redemptionJob)] [] =
     ([\<lparr>Domain_r = ''ab.li'', Available = False, Error = None, Signatures = [],
        SpecialStatus = []\<rparr>],
      [\<lparr>Domain_s = ''ab.li'', Status = ''REDEMPTIONPERIOD'',
        Reason = ''WHOIS status: REDEMPTIONPERIOD''\<rparr>])"
proof -
  have 1: "fst (CheckDomainSignatures sampleUnicode None ''ab.li''
      (availabilityProbes redemptionJob)) = []"
    by (simp add: redemptionJob_fields sample_redemption_probes)
  have 2: "(0::nat) < 5" by simp
  have 3: "\<forall>j < 0. retriedReply sampleUnicode (availabilityWhois redemptionJob j)" by simp
  have 4: "availabilityWhois redemptionJob 0 = WhoisResult ''Status: REDEMPTIONPERIOD''"
    by (simp add: redemptionJob_fields)
  note t = redemption_period_recorded [OF 1 2 3 4 sample_redemption, of "[]"]
  show ?thesis using t
    by (simp add: redemptionJob_fields sample_redemption_probes del: Worker.simps)
qed

text \<open>
  Claim C7 as it is worded fails at two names whose every WHOIS response is
  \<open>Status: REDEMPTIONPERIOD\<close>. For the first, the result of the worker carries the
  empty string in \<open>SpecialStatus\<close>, not \<open>REDEMPTIONPERIOD\<close>. The second has an address
  record as well: it is not available by its \<open>DNS_A\<close> signature, the WHOIS loop is never
  run, and nothing is recorded in the special-status list.
\<close>

theorem redemption_result_counterexample:
  "Worker sampleUnicode None [(''ab.li'', redemptionJob)] [] =
     ([\<lparr>Domain_r = ''ab.li'', Available = False, Error = None, Signatures = [],
        SpecialStatus = []\<rparr>],
      [\<lparr>Domain_s = ''ab.li'', Status = ''REDEMPTIONPERIOD'',
        Reason = ''WHOIS status: REDEMPTIONPERIOD''\<rparr>]) \<and>
   Worker sampleUnicode (Some allMethods) [(''ab.li'', redemptionAddressJob)] [] =
     ([\<lparr>Domain_r = ''ab.li'', Available = False, Error = None, Signatures = [''DNS_A''],
        SpecialStatus = []\<rparr>], [])"
  by code_simp

subsection \<open>Errors\<close>

lemma handleRateLimitedDomain_no_error:
  "snd (fst (handleRateLimitedDomain cfg d h st)) = None"
  by (simp add: handleRateLimitedDomain_def)

lemma loop_no_error:
  "snd (fst (availabilityWhoisLoop unicode cfg d h whois m i st)) = None"
proof (induction "m - i" arbitrary: i)
  case 0
  then have "\<not> i < m" by simp
  then show ?case by (subst availabilityWhoisLoop.simps) simp
next
  case (Suc n)
  then have lt: "i < m" and n: "n = m - (i + 1)" by auto
  have ih: "snd (fst (availabilityWhoisLoop unicode cfg d h whois m (Suc i) st)) = None"
    using Suc.hyps(1) [OF n] by simp
  show ?case
  proof (cases "whois i")
    case (WhoisResult r)
    show ?thesis
      by (subst availabilityWhoisLoop.simps)
        (simp add: lt WhoisResult Let_def ih handleRateLimitedDomain_no_error
          split: option.splits)
  next
    case (WhoisError e)
    show ?thesis
      by (subst availabilityWhoisLoop.simps)
        (simp add: lt WhoisError Let_def ih handleRateLimitedDomain_no_error)
  qed
qed

lemma CheckDomainAvailability_no_error:
  "snd (fst (CheckDomainAvailability unicode globalConfig domain probes whois st)) = None"
  by (simp add: CheckDomainAvailability_unfold Let_def loop_no_error)

lemma Worker_no_error:
  "result \<in> set (fst (Worker unicode globalConfig jobs st)) \<Longrightarrow> Error result = None"
proof (induction jobs arbitrary: st)
  case Nil
  then show ?case by simp
next
  case (Cons job jobs)
  obtain domainName answers where j: "job = (domainName, answers)" by (cases job)
  obtain available err st1 where
    a: "CheckDomainAvailability unicode globalConfig domainName (availabilityProbes answers)
          (availabilityWhois answers) st = ((available, err), st1)"
    by (metis surj_pair)
  have e: "err = None"
    using CheckDomainAvailability_no_error [of unicode globalConfig domainName
        "availabilityProbes answers" "availabilityWhois answers" st] a
    by simp
  from Cons.prems have
    "result = \<lparr>Domain_r = domainName, Available = available, Error = err,
        Signatures =
          fst (CheckDomainSignatures unicode globalConfig domainName (signatureProbes answers)),
        SpecialStatus = []\<rparr> \<or>
     result \<in> set (fst (Worker unicode globalConfig jobs st1))"
    by (auto simp: j a Let_def split: prod.splits)
  then show ?case using e Cons.IH by auto
qed

lemma collectResult_no_error:
  "Error result = None \<Longrightarrow> \<forall>m \<in> set (statusChan c). \<not> isErrorMessage m \<Longrightarrow>
   \<forall>m \<in> set (statusChan (collectResult showRegistered result c)). \<not> isErrorMessage m"
  by (auto simp: collectResult_def Let_def)

lemma fold_collectResult_no_error:
  "\<forall>result \<in> set results. Error result = None \<Longrightarrow>
   \<forall>m \<in> set (statusChan c). \<not> isErrorMessage m \<Longrightarrow>
   \<forall>m \<in> set (statusChan (fold (collectResult showRegistered) results c)). \<not> isErrorMessage m"
proof (induction results arbitrary: c)
  case Nil
  then show ?case by simp
next
  case (Cons r results)
  have "\<forall>m \<in> set (statusChan (collectResult showRegistered r c)). \<not> isErrorMessage m"
    using Cons.prems by (intro collectResult_no_error) auto
  then show ?case using Cons.IH Cons.prems(1) by simp
qed

text \<open>
  Claim C9. \<open>CheckDomainSignatures\<close> returns a \<open>nil\<close> error on every input, and
  \<open>CheckDomainAvailability\<close> returns an error only when its call of
  \<open>CheckDomainSignatures\<close> does, hence never. So every result a worker sends has a \<open>nil\<close>
  \<open>Error\<close>, and the collector never takes its error branch: no status message is an
  error message, for the results of one worker and for any sequence of results that
  workers sent.
\<close>

theorem results_carry_no_error:
  "snd (CheckDomainSignatures unicode globalConfig domain probes) = None \<and>
   (snd (fst (CheckDomainAvailability unicode globalConfig domain probes whois specialStatusDomains))
      \<noteq> None \<longrightarrow> snd (CheckDomainSignatures unicode globalConfig domain probes) \<noteq> None) \<and>
   snd (fst (CheckDomainAvailability unicode globalConfig domain probes whois specialStatusDomains))
     = None \<and>
   (\<forall>result \<in> set (fst (Worker unicode globalConfig jobs specialStatusDomains)).
      Error result = None) \<and>
   (\<forall>message \<in> set (statusChan (collectResults showRegistered
        (fst (Worker unicode globalConfig jobs specialStatusDomains)))). \<not> isErrorMessage message) \<and>
   ((\<forall>result \<in> set results. \<exists>jobs' st'. result \<in> set (fst (Worker unicode globalConfig jobs' st'))) \<longrightarrow>
      (\<forall>message \<in> set (statusChan (collectResults showRegistered results)).
         \<not> isErrorMessage message))"
proof -
  have w: "\<forall>result \<in> set (fst (Worker unicode globalConfig jobs' st')). Error result = None"
    for jobs' st'
    using Worker_no_error by blast
  have c: "\<forall>message \<in> set (statusChan (collectResults showRegistered rs)).
      \<not> isErrorMessage message"
    if "\<forall>result \<in> set rs. Error result = None" for rs
    using that unfolding collectResults_def
    by (intro fold_collectResult_no_error) simp_all
  have g: "\<forall>message \<in> set (statusChan (collectResults showRegistered results)).
      \<not> isErrorMessage message"
    if "\<forall>result \<in> set results. \<exists>jobs' st'. result \<in> set (fst (Worker unicode globalConfig jobs' st'))"
  proof (rule c)
    show "\<forall>result \<in> set results. Error result = None" using that w by blast
  qed
  show ?thesis
    apply (intro conjI)
    subgoal by (rule CheckDomainSignatures_no_error)
    subgoal by (simp add: CheckDomainAvailability_no_error)
    subgoal by (rule CheckDomainAvailability_no_error)
    subgoal by (rule w)
    subgoal by (rule c [OF w])
    subgoal using g by blast
    done
qed

text \<open>Claim C9 at a name no probe sees and at the redemption-period job.\<close>

theorem results_carry_no_error_witness:
  "snd (CheckDomainSignatures sampleUnicode None ''ab.li'' quietProbes) = None \<and>
   snd (fst (CheckDomainAvailability sampleUnicode None ''ab.li'' quietProbes
     (\<lambda>i. WhoisError ''i/o timeout'') [])) = None \<and>
   map Error (fst (Worker sampleUnicode None [(''ab.li'', redemptionJob)] [])) = [None] \<and>
   list_all (\<lambda>message. \<not> isErrorMessage message)
     (statusChan (collectResults True (fst (Worker sampleUnicode None [(''ab.li'', redemptionJob)] []))))"
proof -
  note t = results_carry_no_error [of sampleUnicode None "''ab.li''" quietProbes
      "\<lambda>i. WhoisError ''i/o timeout''" "[]" "[(''ab.li'', redemptionJob)]" True "[]"]
  have 1: "snd (CheckDomainSignatures sampleUnicode None ''ab.li'' quietProbes) = None"
    using t by (rule conjunct1)
  have 2: "snd (fst (CheckDomainAvailability sampleUnicode None ''ab.li'' quietProbes
     (\<lambda>i. WhoisError ''i/o timeout'') [])) = None"
    using t [THEN conjunct2, THEN conjunct2, THEN conjunct1] .
  have "length (fst (Worker sampleUnicode None [(''ab.li'', redemptionJob)] [])) = 1"
    by (simp add: split_def)
  then obtain result where
    w: "fst (Worker sampleUnicode None [(''ab.li'', redemptionJob)] []) = [result]"
    by (cases "fst (Worker sampleUnicode None [(''ab.li'', redemptionJob)] [])") auto
  have "Error result = None"
    using t [THEN conjunct2, THEN conjunct2, THEN conjunct2, THEN conjunct1] w by simp
  then have 3: "map Error (fst (Worker sampleUnicode None [(''ab.li'', redemptionJob)] [])) = [None]"
    by (simp only: w list.map)
  have 4: "list_all (\<lambda>message. \<not> isErrorMessage message)
     (statusChan (collectResults True (fst (Worker sampleUnicode None [(''ab.li'', redemptionJob)] []))))"
    using t [THEN conjunct2, THEN conjunct2, THEN conjunct2, THEN conjunct2, THEN conjunct1]
    by (simp only: list_all_iff)
  show ?thesis using 1 2 3 4 by (simp only: simp_thms)
qed

end
